theory Spec2Isabelle
  imports Main "HOL-Library.AList"
begin

section \<open>Data model of the realtime server\<close>

text \<open>
  The types of \<^verbatim>\<open>scripts/server.ts\<close>. String-literal unions are datatypes, interfaces are
  records. A field called \<^verbatim>\<open>id\<close> in the source is written \<open>playerId\<close>, \<open>problemId\<close> or
  \<open>roomId\<close>, since \<open>id\<close> is the identity function of HOL.
\<close>

datatype Difficulty = Easy | Medium | Hard

datatype Topic = Arrays | Strings | Trees | Graphs | DP

datatype TeamKey = A | B

text \<open>
  Values of type \<^verbatim>\<open>any\<close>: the arguments and expected results of test vectors, and whatever
  a script run by the virtual machine completes with. Numbers are restricted to the integral
  ones; \<open>Function\<close> carries the name of a callable.
\<close>

datatype jsval =
    Undefined
  | Null
  | Bool bool
  | Num int
  | Str string
  | Arr "jsval list"
  | Obj "(string \<times> jsval) list"
  | Function string

record TestVector =
  args :: jsval
  expected :: jsval

record Problem =
  problemId :: string
  title :: string
  description :: string
  signature :: string
  examples :: string
  boilerplate :: string
  difficulty :: Difficulty
  topic :: Topic
  functionName :: string
  tests :: "TestVector list"

subsection \<open>The seeded problems\<close>

text \<open>The six problems pushed by \<^verbatim>\<open>seedProblems\<close>, in the order of the source.\<close>

definition seed_twoSum :: Problem where
  "seed_twoSum = \<lparr>
     problemId = ''two-sum-easy'',
     title = ''Two Sum'',
     description =
       ''Given an array of integers nums and an integer target, return indices of the two numbers such that they add up to target.'' @ [CHR 0x0A]
       @ ''Assume exactly one solution, and you may not use the same element twice. Return the indices in any order.'',
     signature = ''function twoSum(nums: number[], target: number): number[]'',
     examples =
       ''Input: nums = [2,7,11,15], target = 9 => Output: [0,1]'' @ [CHR 0x0A]
       @ ''Input: nums = [3,2,4], target = 6 => Output: [1,2]'',
     boilerplate =
       ''function twoSum(nums, target) {'' @ [CHR 0x0A]
       @ ''  const map = new Map();'' @ [CHR 0x0A]
       @ ''  for (let i = 0; i < nums.length; i++) {'' @ [CHR 0x0A]
       @ ''    const need = target - nums[i];'' @ [CHR 0x0A]
       @ ''    if (map.has(need)) return [map.get(need), i];'' @ [CHR 0x0A]
       @ ''    map.set(nums[i], i);'' @ [CHR 0x0A]
       @ ''  }'' @ [CHR 0x0A]
       @ ''  return [];'' @ [CHR 0x0A]
       @ ''}'' @ [CHR 0x0A],
     difficulty = Easy,
     topic = Arrays,
     functionName = ''twoSum'',
     tests = [
       \<lparr>args = Arr [Arr [Num 2, Num 7, Num 11, Num 15], Num 9],
        expected = Arr [Num 0, Num 1]\<rparr>,
       \<lparr>args = Arr [Arr [Num 3, Num 2, Num 4], Num 6],
        expected = Arr [Num 1, Num 2]\<rparr>,
       \<lparr>args = Arr [Arr [Num 3, Num 3], Num 6],
        expected = Arr [Num 0, Num 1]\<rparr>]\<rparr>"

definition seed_isAnagram :: Problem where
  "seed_isAnagram = \<lparr>
     problemId = ''valid-anagram'',
     title = ''Valid Anagram'',
     description =
       ''Given two strings s and t, return true if t is an anagram of s, and false otherwise.'',
     signature = ''function isAnagram(s: string, t: string): boolean'',
     examples =
       ''Input: s = '' @ [CHR 0x22] @ ''anagram'' @ [CHR 0x22] @ '', t = '' @ [CHR 0x22] @ ''nagaram'' @ [CHR 0x22] @ '' => true'' @ [CHR 0x0A]
       @ ''Input: s = '' @ [CHR 0x22] @ ''rat'' @ [CHR 0x22] @ '', t = '' @ [CHR 0x22] @ ''car'' @ [CHR 0x22] @ '' => false'',
     boilerplate =
       ''function isAnagram(s, t) {'' @ [CHR 0x0A]
       @ ''  if (s.length !== t.length) return false;'' @ [CHR 0x0A]
       @ ''  const cnt = new Array(26).fill(0);'' @ [CHR 0x0A]
       @ ''  for (let i = 0; i < s.length; i++) {'' @ [CHR 0x0A]
       @ ''    cnt[s.charCodeAt(i) - 97]++;'' @ [CHR 0x0A]
       @ ''    cnt[t.charCodeAt(i) - 97]--;'' @ [CHR 0x0A]
       @ ''  }'' @ [CHR 0x0A]
       @ ''  return cnt.every(x => x === 0);'' @ [CHR 0x0A]
       @ ''}'' @ [CHR 0x0A],
     difficulty = Easy,
     topic = Strings,
     functionName = ''isAnagram'',
     tests = [
       \<lparr>args = Arr [Str ''anagram'', Str ''nagaram''],
        expected = Bool True\<rparr>,
       \<lparr>args = Arr [Str ''rat'', Str ''car''],
        expected = Bool False\<rparr>]\<rparr>"

definition seed_maxDepth :: Problem where
  "seed_maxDepth = \<lparr>
     problemId = ''max-depth-tree'',
     title = ''Maximum Depth of Binary Tree'',
     description =
       ''Given the root of a binary tree, return its maximum depth. A binary tree node is represented as { val, left, right }.'',
     signature = ''function maxDepth(root: TreeNode | null): number'',
     examples =
       ''Input: root = {val:3,left:{val:9,left:null,right:null},right:{val:20,left:{val:15},right:{val:7}}}'' @ [CHR 0x0A]
       @ ''Output: 3'',
     boilerplate =
       ''function maxDepth(root) {'' @ [CHR 0x0A]
       @ ''  if (!root) return 0;'' @ [CHR 0x0A]
       @ ''  return 1 + Math.max(maxDepth(root.left), maxDepth(root.right));'' @ [CHR 0x0A]
       @ ''}'' @ [CHR 0x0A],
     difficulty = Medium,
     topic = Trees,
     functionName = ''maxDepth'',
     tests = [
       \<lparr>args = Arr [Obj [(''val'', Num 3), (''left'', Obj [(''val'', Num 9), (''left'', Null), (''right'', Null)]), (''right'', Obj [(''val'', Num 20), (''left'', Obj [(''val'', Num 15)]), (''right'', Obj [(''val'', Num 7)])])]],
        expected = Num 3\<rparr>,
       \<lparr>args = Arr [Null],
        expected = Num 0\<rparr>]\<rparr>"

definition seed_numIslands :: Problem where
  "seed_numIslands = \<lparr>
     problemId = ''num-islands'',
     title = ''Number of Islands'',
     description =
       ''Given a 2D grid of '' @ [CHR 0x27] @ ''1'' @ [CHR 0x27] @ ''s (land) and '' @ [CHR 0x27] @ ''0'' @ [CHR 0x27] @ ''s (water), return the number of islands. An island is surrounded by water and is formed by connecting adjacent lands horizontally or vertically.'',
     signature = ''function numIslands(grid: string[][]): number'',
     examples =
       ''Input: grid = [['' @ [CHR 0x22] @ ''1'' @ [CHR 0x22] @ '','' @ [CHR 0x22] @ ''1'' @ [CHR 0x22] @ '','' @ [CHR 0x22] @ ''0'' @ [CHR 0x22] @ ''],['' @ [CHR 0x22] @ ''0'' @ [CHR 0x22] @ '','' @ [CHR 0x22] @ ''1'' @ [CHR 0x22] @ '','' @ [CHR 0x22] @ ''0'' @ [CHR 0x22] @ ''],['' @ [CHR 0x22] @ ''1'' @ [CHR 0x22] @ '','' @ [CHR 0x22] @ ''0'' @ [CHR 0x22] @ '','' @ [CHR 0x22] @ ''1'' @ [CHR 0x22] @ '']] => Output: 3'',
     boilerplate =
       ''function numIslands(grid) {'' @ [CHR 0x0A]
       @ ''  const m = grid.length, n = grid[0].length;'' @ [CHR 0x0A]
       @ ''  let count = 0;'' @ [CHR 0x0A]
       @ ''  const dirs = [[1,0],[-1,0],[0,1],[0,-1]];'' @ [CHR 0x0A]
       @ ''  function dfs(r,c){'' @ [CHR 0x0A]
       @ ''    if (r<0||c<0||r>=m||c>=n||grid[r][c]!=='' @ [CHR 0x22] @ ''1'' @ [CHR 0x22] @ '') return;'' @ [CHR 0x0A]
       @ ''    grid[r][c]='' @ [CHR 0x22] @ ''0'' @ [CHR 0x22] @ '';'' @ [CHR 0x0A]
       @ ''    for (const [dr,dc] of dirs) dfs(r+dr,c+dc);'' @ [CHR 0x0A]
       @ ''  }'' @ [CHR 0x0A]
       @ ''  for (let i=0;i<m;i++){'' @ [CHR 0x0A]
       @ ''    for (let j=0;j<n;j++){'' @ [CHR 0x0A]
       @ ''      if (grid[i][j]==='' @ [CHR 0x22] @ ''1'' @ [CHR 0x22] @ ''){ count++; dfs(i,j); }'' @ [CHR 0x0A]
       @ ''    }'' @ [CHR 0x0A]
       @ ''  }'' @ [CHR 0x0A]
       @ ''  return count;'' @ [CHR 0x0A]
       @ ''}'' @ [CHR 0x0A],
     difficulty = Medium,
     topic = Graphs,
     functionName = ''numIslands'',
     tests = [
       \<lparr>args = Arr [Arr [Arr [Str ''1'', Str ''1'', Str ''0''], Arr [Str ''0'', Str ''1'', Str ''0''], Arr [Str ''1'', Str ''0'', Str ''1'']]],
        expected = Num 3\<rparr>,
       \<lparr>args = Arr [Arr [Arr [Str ''0'', Str ''0''], Arr [Str ''0'', Str ''0'']]],
        expected = Num 0\<rparr>]\<rparr>"

definition seed_minDistance :: Problem where
  "seed_minDistance = \<lparr>
     problemId = ''edit-distance'',
     title = ''Edit Distance'',
     description =
       ''Given two strings word1 and word2, return the minimum number of operations required to convert word1 to word2. You have the following operations permitted on a word: insert a character, delete a character, replace a character.'',
     signature = ''function minDistance(word1: string, word2: string): number'',
     examples =
       ''Input: '' @ [CHR 0x22] @ ''horse'' @ [CHR 0x22] @ '', '' @ [CHR 0x22] @ ''ros'' @ [CHR 0x22] @ '' => 3'',
     boilerplate =
       ''function minDistance(a, b) {'' @ [CHR 0x0A]
       @ ''  const m = a.length, n = b.length;'' @ [CHR 0x0A]
       @ ''  const dp = Array.from({ length: m + 1 }, () => new Array(n + 1).fill(0));'' @ [CHR 0x0A]
       @ ''  for (let i = 0; i <= m; i++) dp[i][0] = i;'' @ [CHR 0x0A]
       @ ''  for (let j = 0; j <= n; j++) dp[0][j] = j;'' @ [CHR 0x0A]
       @ ''  for (let i = 1; i <= m; i++) {'' @ [CHR 0x0A]
       @ ''    for (let j = 1; j <= n; j++) {'' @ [CHR 0x0A]
       @ ''      if (a[i - 1] === b[j - 1]) dp[i][j] = dp[i - 1][j - 1];'' @ [CHR 0x0A]
       @ ''      else dp[i][j] = 1 + Math.min(dp[i - 1][j], dp[i][j - 1], dp[i - 1][j - 1]);'' @ [CHR 0x0A]
       @ ''    }'' @ [CHR 0x0A]
       @ ''  }'' @ [CHR 0x0A]
       @ ''  return dp[m][n];'' @ [CHR 0x0A]
       @ ''}'' @ [CHR 0x0A],
     difficulty = Hard,
     topic = DP,
     functionName = ''minDistance'',
     tests = [
       \<lparr>args = Arr [Str ''horse'', Str ''ros''],
        expected = Num 3\<rparr>,
       \<lparr>args = Arr [Str ''intention'', Str ''execution''],
        expected = Num 5\<rparr>]\<rparr>"

definition seed_canFinish :: Problem where
  "seed_canFinish = \<lparr>
     problemId = ''course-schedule'',
     title = ''Course Schedule (Detect Cycle)'',
     description =
       ''Given the total number of courses and prerequisites as pairs, determine if you can finish all courses (i.e., graph has no cycle).'',
     signature = ''function canFinish(n: number, prereqs: number[][]): boolean'',
     examples =
       ''Input: n=2, [[1,0]] => true; n=2, [[1,0],[0,1]] => false'',
     boilerplate =
       ''function canFinish(n, prereqs) {'' @ [CHR 0x0A]
       @ ''  const g = Array.from({length:n}, () => []);'' @ [CHR 0x0A]
       @ ''  const indeg = new Array(n).fill(0);'' @ [CHR 0x0A]
       @ ''  for (const [a,b] of prereqs) { g[b].push(a); indeg[a]++; }'' @ [CHR 0x0A]
       @ ''  const q = [];'' @ [CHR 0x0A]
       @ ''  for (let i=0;i<n;i++) if (indeg[i]===0) q.push(i);'' @ [CHR 0x0A]
       @ ''  let seen = 0;'' @ [CHR 0x0A]
       @ ''  while (q.length) {'' @ [CHR 0x0A]
       @ ''    const u = q.shift();'' @ [CHR 0x0A]
       @ ''    seen++;'' @ [CHR 0x0A]
       @ ''    for (const v of g[u]) {'' @ [CHR 0x0A]
       @ ''      if (--indeg[v] === 0) q.push(v);'' @ [CHR 0x0A]
       @ ''    }'' @ [CHR 0x0A]
       @ ''  }'' @ [CHR 0x0A]
       @ ''  return seen === n;'' @ [CHR 0x0A]
       @ ''}'' @ [CHR 0x0A],
     difficulty = Hard,
     topic = Graphs,
     functionName = ''canFinish'',
     tests = [
       \<lparr>args = Arr [Num 2, Arr [Arr [Num 1, Num 0]]],
        expected = Bool True\<rparr>,
       \<lparr>args = Arr [Num 2, Arr [Arr [Num 1, Num 0], Arr [Num 0, Num 1]]],
        expected = Bool False\<rparr>]\<rparr>"

definition seedProblems :: "Problem list" where
  "seedProblems = [seed_twoSum, seed_isAnagram, seed_maxDepth, seed_numIslands, seed_minDistance, seed_canFinish]"

subsection \<open>Players, rooms and messages\<close>

text \<open>
  A socket is identified by a number; whether its \<^verbatim>\<open>readyState\<close> is \<^verbatim>\<open>OPEN\<close> is decided by
  the network, which every sending operation receives as the predicate \<open>opn\<close>.
\<close>

type_synonym WebSocket = nat

record Player =
  playerId :: string
  name :: string
  team :: TeamKey
  ready :: bool
  attempts :: nat
  errors :: nat
  ws :: WebSocket

datatype PlayerState = PlayerState string string TeamKey bool nat nat

datatype RoomStatePayload =
  RoomStatePayload string Difficulty Topic "PlayerState list" bool "TeamKey option"

datatype ClientToServerMessage =
    Join_room string string "Difficulty option" "Topic option"
  | Ready bool
  | Chat_in string
  | Code_update string
  | Cursor int int
  | Submit_solution string
  | Rematch

datatype ServerToClientMessage =
    Room_state RoomStatePayload "string option"
  | Game_start Problem int string
  | Chat string string TeamKey
  | Attempt_result bool "string option"
  | Game_over "TeamKey option" int
  | Timer_sync int
  | Error string

type_synonym Sent = "(WebSocket \<times> ServerToClientMessage) list"

text \<open>
  \<open>players\<close> is a JavaScript \<^verbatim>\<open>Map\<close>: an association list in insertion order, where
  \<^verbatim>\<open>set\<close> is \<^const>\<open>AList.update\<close> (replace in place, or append) and \<^verbatim>\<open>delete\<close> is
  \<^const>\<open>AList.delete\<close>. \<open>timer\<close> tells whether an interval handle is installed. \<open>winner\<close>,
  \<open>problem\<close> and \<open>endAt\<close> are \<open>None\<close> where the source holds \<^verbatim>\<open>null\<close>.
\<close>

record Room =
  roomId :: string
  difficulty :: Difficulty
  topic :: Topic
  players :: "(string \<times> Player) list"
  started :: bool
  winner :: "TeamKey option"
  problem :: "Problem option"
  endAt :: "int option"
  timer :: bool

definition GAME_SECONDS :: int where
  "GAME_SECONDS = 20 * 60"

subsection \<open>Repository layer\<close>

text \<open>
  \<^verbatim>\<open>Repo.getRandomProblem\<close>. \<open>rnd\<close> is the random draw: \<^verbatim>\<open>Math.floor(Math.random() * n)\<close>
  ranges over \<open>0..n-1\<close> and is modelled as \<open>rnd mod n\<close>. The thrown \<^verbatim>\<open>Error\<close> is \<open>Inl\<close> of its
  message.
\<close>

definition getRandomProblem ::
  "Problem list \<Rightarrow> nat \<Rightarrow> Difficulty \<Rightarrow> Topic \<Rightarrow> string + Problem" where
  "getRandomProblem problems rnd d t =
     (let pool = filter (\<lambda>p. Problem.difficulty p = d \<and> Problem.topic p = t) problems
      in if length pool = 0 then Inl ''No problems in this category.''
         else Inr (pool ! (rnd mod length pool)))"

subsection \<open>Room\<close>

definition newRoom :: "string \<Rightarrow> Difficulty \<Rightarrow> Topic \<Rightarrow> Room" where
  "newRoom rid d t =
     \<lparr>roomId = rid, difficulty = d, topic = t, players = [], started = False,
      winner = None, problem = None, endAt = None, timer = False\<rparr>"

definition safeSend :: "(WebSocket \<Rightarrow> bool) \<Rightarrow> WebSocket \<Rightarrow> ServerToClientMessage \<Rightarrow> Sent" where
  "safeSend opn sock payload = (if opn sock then [(sock, payload)] else [])"

definition broadcast :: "(WebSocket \<Rightarrow> bool) \<Rightarrow> Room \<Rightarrow> ServerToClientMessage \<Rightarrow> Sent" where
  "broadcast opn r msg = concat (map (\<lambda>(k, p). safeSend opn (ws p) msg) (players r))"

text \<open>
  \<^verbatim>\<open>broadcastState\<close> builds the payload that \<^verbatim>\<open>serializeRoom\<close> builds; both are
  \<open>serializeRoom\<close> here.
\<close>

definition serializeRoom :: "Room \<Rightarrow> RoomStatePayload" where
  "serializeRoom r =
     RoomStatePayload (roomId r) (difficulty r) (topic r)
       (map (\<lambda>(k, p). PlayerState (playerId p) (name p) (team p) (ready p) (attempts p) (errors p))
            (players r))
       (started r) (winner r)"

definition broadcastState :: "(WebSocket \<Rightarrow> bool) \<Rightarrow> Room \<Rightarrow> string option \<Rightarrow> Sent" where
  "broadcastState opn r selfId = broadcast opn r (Room_state (serializeRoom r) selfId)"

definition countTeam :: "TeamKey \<Rightarrow> Room \<Rightarrow> nat" where
  "countTeam k r = length (filter (\<lambda>x. team x = k) (map snd (players r)))"

definition addPlayer :: "(WebSocket \<Rightarrow> bool) \<Rightarrow> Room \<Rightarrow> Player \<Rightarrow> string + Room \<times> Sent" where
  "addPlayer opn r p =
     (if length (players r) \<ge> 4 then Inl ''Room full''
      else
        let countA = countTeam A r;
            countB = countTeam B r;
            team' = (if countA \<le> countB then A else B);
            p' = p\<lparr>team := team'\<rparr>;
            r' = r\<lparr>players := AList.update (playerId p') p' (players r)\<rparr>
        in Inr (r', broadcastState opn r' (Some (playerId p'))))"

definition removePlayer :: "(WebSocket \<Rightarrow> bool) \<Rightarrow> Room \<Rightarrow> string \<Rightarrow> Room \<times> Sent" where
  "removePlayer opn r pid =
     (let r' = r\<lparr>players := AList.delete pid (players r)\<rparr>
      in if length (players r') = 0 then (r', []) else (r', broadcastState opn r' None))"

definition stopTimer :: "Room \<Rightarrow> Room" where
  "stopTimer r = r\<lparr>timer := False\<rparr>"

text \<open>\<^verbatim>\<open>!this.endAt\<close> holds for \<^verbatim>\<open>null\<close> and for the number 0.\<close>

definition noEndAt :: "Room \<Rightarrow> bool" where
  "noEndAt r = (case endAt r of None \<Rightarrow> True | Some e \<Rightarrow> e = 0)"

definition startTimer :: "Room \<Rightarrow> Room" where
  "startTimer r = (if noEndAt r then r else (stopTimer r)\<lparr>timer := True\<rparr>)"

definition finish :: "(WebSocket \<Rightarrow> bool) \<Rightarrow> int \<Rightarrow> TeamKey option \<Rightarrow> Room \<Rightarrow> Room \<times> Sent" where
  "finish opn now w r =
     (if \<not> started r then (r, [])
      else
        let r' = stopTimer (r\<lparr>started := False, winner := w\<rparr>);
            timeTaken = (case endAt r' of
                           None \<Rightarrow> 0
                         | Some e \<Rightarrow> if e = 0 then 0 else max 0 (e - now))
        in (r', broadcast opn r' (Game_over w timeTaken) @ broadcastState opn r' None))"

text \<open>
  \<^verbatim>\<open>start\<close> is \<^verbatim>\<open>async\<close>: it runs up to the \<^verbatim>\<open>await\<close> within the caller, and its
  continuation runs as a microtask, before any timer callback and before any frame that
  arrives later is handled. \<open>start\<close> takes the two halves as one step: this is the call made
  for a frame that is the last of its chunk of data. The halves, and frames that follow in
  the same chunk, are in the subsection on frames that arrive together below. Nobody awaits
  or catches the promise that \<^verbatim>\<open>start\<close> returns: when \<^verbatim>\<open>getRandomProblem\<close> throws, the assignments made before the \<^verbatim>\<open>await\<close>
  stay, nothing is sent, and the rejection is unhandled. The third component of the result is
  that unhandled rejection (\<open>None\<close> when the promise is fulfilled).
\<close>

definition start ::
  "(WebSocket \<Rightarrow> bool) \<Rightarrow> Problem list \<Rightarrow> nat \<Rightarrow> int \<Rightarrow> Room \<Rightarrow> Room \<times> Sent \<times> string option" where
  "start opn problems rnd now r =
     (let r1 = r\<lparr>started := True, winner := None\<rparr>
      in (case getRandomProblem problems rnd (difficulty r1) (topic r1) of
            Inl e \<Rightarrow> (r1, [], Some e)
          | Inr p \<Rightarrow>
              (let r2 = r1\<lparr>problem := Some p\<rparr>;
                   r3 = r2\<lparr>endAt := Some (now + GAME_SECONDS * 1000)\<rparr>;
                   out1 = broadcast opn r3
                            (Game_start p (now + GAME_SECONDS * 1000) (boilerplate p));
                   out2 = broadcastState opn r3 None
               in (startTimer r3, out1 @ out2, None))))"

definition tryStart ::
  "(WebSocket \<Rightarrow> bool) \<Rightarrow> Problem list \<Rightarrow> nat \<Rightarrow> int \<Rightarrow> Room \<Rightarrow> Room \<times> Sent \<times> string option" where
  "tryStart opn problems rnd now r =
     (if started r then (r, [], None)
      else if length (players r) \<noteq> 4 then (r, [], None)
      else if \<not> list_all (\<lambda>(k, p). ready p) (players r) then (r, [], None)
      else start opn problems rnd now r)"

definition setReady ::
  "(WebSocket \<Rightarrow> bool) \<Rightarrow> Problem list \<Rightarrow> nat \<Rightarrow> int \<Rightarrow> Room \<Rightarrow> string \<Rightarrow> bool
     \<Rightarrow> Room \<times> Sent \<times> string option" where
  "setReady opn problems rnd now r pid rdy =
     (case map_of (players r) pid of
        None \<Rightarrow> (r, [], None)
      | Some p \<Rightarrow>
          let r' = r\<lparr>players := AList.update pid (p\<lparr>ready := rdy\<rparr>) (players r)\<rparr>;
              out = broadcastState opn r' None
          in (case tryStart opn problems rnd now r' of
                (r'', out', rej) \<Rightarrow> (r'', out @ out', rej)))"

text \<open>The callback installed by \<^verbatim>\<open>startTimer\<close>; it fires only while the handle exists.\<close>

definition tick :: "(WebSocket \<Rightarrow> bool) \<Rightarrow> int \<Rightarrow> Room \<Rightarrow> Room \<times> Sent" where
  "tick opn now r =
     (if \<not> timer r then (r, [])
      else case endAt r of
             None \<Rightarrow> (r, [])
           | Some e \<Rightarrow>
               if e = 0 then (r, [])
               else if now \<ge> e then finish opn now None (stopTimer r)
               else (r, broadcast opn r (Timer_sync e)))"

definition handleChat :: "(WebSocket \<Rightarrow> bool) \<Rightarrow> Room \<Rightarrow> string \<Rightarrow> string \<Rightarrow> Sent" where
  "handleChat opn r fromId text =
     (case map_of (players r) fromId of
        None \<Rightarrow> []
      | Some p \<Rightarrow> broadcast opn r (Chat (name p) text (team p)))"

definition rematch :: "(WebSocket \<Rightarrow> bool) \<Rightarrow> Room \<Rightarrow> Room \<times> Sent" where
  "rematch opn r =
     (let ps = map (\<lambda>(k, p). (k, p\<lparr>ready := False, attempts := 0, errors := 0\<rparr>)) (players r);
          r' = stopTimer (r\<lparr>players := ps, started := False, winner := None,
                            problem := None, endAt := None\<rparr>)
      in (r', broadcastState opn r' None))"

subsection \<open>Execution harness\<close>

text \<open>
  \<^verbatim>\<open>evaluateSolution\<close> runs strings of JavaScript through Node's \<^verbatim>\<open>vm\<close> module and compares
  results through \<^verbatim>\<open>JSON.stringify\<close>. The engine is not code of this repository; it is a
  parameter of the model:
  \<^item> \<open>createContext\<close> builds the context from the names the source puts into it;
  \<^item> \<open>runInContext script c h\<close> runs a script (under the engine's own time limit) in the
    context \<open>c\<close>, with the host realm in state \<open>h\<close>. It returns what the script completes
    with (\<open>Inl\<close> the text \<^verbatim>\<open>e?.message || e\<close> of a thrown value, time-outs included), the
    context and the host state afterwards. The host state stands for everything that the
    objects handed to the context by reference (\<^verbatim>\<open>Math\<close>, \<^verbatim>\<open>JSON\<close>, \<^verbatim>\<open>Object\<close>, ...) carry
    or reach: their properties and the state of the random number generator;
  \<^item> \<open>stringify h\<close> is the host's \<^verbatim>\<open>JSON.stringify\<close> as it is in the host state \<open>h\<close>
    (the context receives \<^verbatim>\<open>JSON\<close> by reference, so a script can replace the function):
    \<open>Inr (Some s)\<close> a text, \<open>Inr None\<close> the value \<^verbatim>\<open>undefined\<close>, \<open>Inl\<close> the message of a
    thrown \<^verbatim>\<open>TypeError\<close>.
\<close>

record ('c, 'h) Vm =
  createContext :: "string list \<Rightarrow> 'c"
  runInContext :: "string \<Rightarrow> 'c \<Rightarrow> 'h \<Rightarrow> (string + jsval) \<times> 'c \<times> 'h"
  stringify :: "'h \<Rightarrow> jsval \<Rightarrow> string + string option"

definition contextGlobals :: "string list" where
  "contextGlobals =
     [''console'', ''Math'', ''JSON'', ''Number'', ''String'', ''Array'', ''Object'',
      ''parseInt'', ''parseFloat'', ''BigInt'', ''Infinity'']"

definition wrapped :: "string \<Rightarrow> string \<Rightarrow> string" where
  "wrapped code fn =
     [CHR 0x0A] @ [CHR 0x22] @ ''use strict'' @ [CHR 0x22] @ '';'' @ [CHR 0x0A]
     @ code @ [CHR 0x0A]
     @ ''// Export target function by name for the harness:'' @ [CHR 0x0A]
     @ ''(typeof '' @ fn @ '' === '' @ [CHR 0x22] @ ''function'' @ [CHR 0x22] @ '') ? '' @ fn
     @ '' : null;'' @ [CHR 0x0A] @ ''  ''"

text \<open>A template literal prints \<^verbatim>\<open>undefined\<close> as the word.\<close>

definition interpolate :: "string option \<Rightarrow> string" where
  "interpolate s = (case s of None \<Rightarrow> ''undefined'' | Some x \<Rightarrow> x)"

definition callScript :: "string \<Rightarrow> string \<Rightarrow> string" where
  "callScript fn argsText = ''('' @ fn @ '')(...'' @ argsText @ '')''"

definition isFunction :: "jsval \<Rightarrow> bool" where
  "isFunction v = (case v of Function f \<Rightarrow> True | _ \<Rightarrow> False)"

definition deepEqual :: "('c, 'h) Vm \<Rightarrow> 'h \<Rightarrow> jsval \<Rightarrow> jsval \<Rightarrow> string + bool" where
  "deepEqual vm h a b =
     (case stringify vm h a of
        Inl e \<Rightarrow> Inl e
      | Inr sa \<Rightarrow>
          (case stringify vm h b of
             Inl e \<Rightarrow> Inl e
           | Inr sb \<Rightarrow> Inr (sa = sb)))"

text \<open>
  The loop over \<^verbatim>\<open>problem.tests\<close>. The result is the outcome of the call (\<open>Inr\<close> the returned
  boolean, \<open>Inl\<close> the message of the thrown error) with the context and the host state the
  loop leaves behind.
\<close>

fun runTests ::
  "('c, 'h) Vm \<Rightarrow> string \<Rightarrow> TestVector list \<Rightarrow> 'c \<Rightarrow> 'h \<Rightarrow> (string + bool) \<times> 'c \<times> 'h" where
  "runTests vm fn [] c h = (Inr True, c, h)"
| "runTests vm fn (t # ts) c h =
     (case stringify vm h (args t) of
        Inl e \<Rightarrow> (Inl (''Runtime error on test: '' @ e), c, h)
      | Inr s \<Rightarrow>
          (case runInContext vm (callScript fn (interpolate s)) c h of
             (Inl e, c', h') \<Rightarrow> (Inl (''Runtime error on test: '' @ e), c', h')
           | (Inr out, c', h') \<Rightarrow>
               (case deepEqual vm h' out (expected t) of
                  Inl e \<Rightarrow> (Inl e, c', h')
                | Inr eq \<Rightarrow> if \<not> eq then (Inr False, c', h') else runTests vm fn ts c' h')))"

definition evaluateSolution ::
  "('c, 'h) Vm \<Rightarrow> string \<Rightarrow> Problem \<Rightarrow> 'h \<Rightarrow> (string + bool) \<times> 'h" where
  "evaluateSolution vm code prob h =
     (let context = createContext vm contextGlobals
      in (case runInContext vm (wrapped code (functionName prob)) context h of
            (Inl e, c, h') \<Rightarrow> (Inl (''Compile error: '' @ e), h')
          | (Inr fn, c, h') \<Rightarrow>
              if \<not> isFunction fn
              then (Inl (''Function '' @ functionName prob @ '' not found''), h')
              else (case runTests vm (functionName prob) (tests prob) c h' of
                      (res, c', h'') \<Rightarrow> (res, h''))))"

text \<open>
  \<^verbatim>\<open>x || d\<close> on a message text: the empty text is falsy.
\<close>

definition orElse :: "string \<Rightarrow> string \<Rightarrow> string" where
  "orElse x d = (if x = [] then d else x)"

text \<open>
  \<^verbatim>\<open>handleSubmit\<close> awaits \<^verbatim>\<open>evaluateSolution\<close>, which runs to its end within the call, and
  continues as a microtask. \<open>handleSubmit\<close> takes the two halves as one step, as \<open>start\<close>
  does: this is the call made for a frame that is the last of its chunk of data.
\<close>

definition handleSubmit ::
  "(WebSocket \<Rightarrow> bool) \<Rightarrow> int \<Rightarrow> ('c, 'h) Vm \<Rightarrow> 'h \<Rightarrow> Room \<Rightarrow> string \<Rightarrow> string
     \<Rightarrow> Room \<times> Sent \<times> 'h" where
  "handleSubmit opn now vm h r fromId code =
     (case map_of (players r) fromId of
        None \<Rightarrow> (r, [], h)
      | Some p \<Rightarrow>
          (case problem r of
             None \<Rightarrow> (r, [], h)
           | Some prob \<Rightarrow>
               if \<not> started r then (r, [], h)
               else
                 (let p1 = p\<lparr>attempts := attempts p + 1\<rparr>;
                      r1 = r\<lparr>players := AList.update fromId p1 (players r)\<rparr>;
                      p2 = p1\<lparr>errors := errors p1 + 1\<rparr>;
                      r2 = r1\<lparr>players := AList.update fromId p2 (players r1)\<rparr>
                  in (case evaluateSolution vm code prob h of
                        (Inr ok, h') \<Rightarrow>
                          if ok then
                            (case finish opn now (Some (team p1)) r1 of
                               (r3, out) \<Rightarrow>
                                 (r3, broadcast opn r1 (Attempt_result True None) @ out, h'))
                          else
                            (r2,
                             safeSend opn (ws p2) (Attempt_result False (Some ''Wrong answer''))
                             @ broadcastState opn r2 None,
                             h')
                      | (Inl msg, h') \<Rightarrow>
                          (r2,
                           safeSend opn (ws p2)
                             (Attempt_result False (Some (orElse msg ''Runtime error'')))
                           @ broadcastState opn r2 None,
                           h')))))"

subsection \<open>Room registry and connection handler\<close>

text \<open>
  \<^verbatim>\<open>RoomsMap\<close> is a map from room identifiers to rooms. A connection keeps \<^verbatim>\<open>currentRoom\<close>
  and \<^verbatim>\<open>selfId\<close>; the room object it refers to is the registry's entry under the room's own
  identifier (a room leaves the registry only when it has no players, and a connection with a
  room is one of its players until it closes), so \<open>currentRoom\<close> holds that identifier.
  \<^verbatim>\<open>!selfId\<close> holds for \<^verbatim>\<open>null\<close> and for the empty string.
\<close>

type_synonym RoomsMap = "string \<rightharpoonup> Room"

definition getOrCreate :: "RoomsMap \<Rightarrow> string \<Rightarrow> Difficulty \<Rightarrow> Topic \<Rightarrow> Room \<times> RoomsMap" where
  "getOrCreate rooms rid d t =
     (case rooms rid of
        Some exist \<Rightarrow> (exist, rooms)
      | None \<Rightarrow> (newRoom rid d t, rooms(rid \<mapsto> newRoom rid d t)))"

definition removeIfEmpty :: "RoomsMap \<Rightarrow> string \<Rightarrow> RoomsMap" where
  "removeIfEmpty rooms rid =
     (case rooms rid of
        Some r \<Rightarrow> if length (players r) = 0 then rooms(rid := None) else rooms
      | None \<Rightarrow> rooms)"

record Session =
  currentRoom :: "string option"
  selfId :: "string option"

text \<open>
  \<^verbatim>\<open>toUpperCase\<close> on the 8-bit characters of a HOL string: the letters a to z change. Room
  identifiers with other letters that have an upper case are outside this model.
\<close>

definition toUpperCase :: "string \<Rightarrow> string" where
  "toUpperCase s =
     map (\<lambda>c. let n = (of_char c :: nat) in if 97 \<le> n \<and> n \<le> 122 then char_of (n - 32) else c) s"

definition isNameChar :: "char \<Rightarrow> bool" where
  "isNameChar c =
     (let n = (of_char c :: nat)
      in (48 \<le> n \<and> n \<le> 57) \<or> (65 \<le> n \<and> n \<le> 90) \<or> n = 95 \<or> (97 \<le> n \<and> n \<le> 122)
         \<or> c = CHR ''-'' \<or> c = CHR '' '')"

definition sanitizeName :: "string \<Rightarrow> string" where
  "sanitizeName nm = filter isNameChar (take 24 (orElse nm ''Player''))"

text \<open>The player object that the \<^verbatim>\<open>join_room\<close> case hands to \<^verbatim>\<open>addPlayer\<close>.\<close>

definition newPlayer :: "string \<Rightarrow> string \<Rightarrow> WebSocket \<Rightarrow> Player" where
  "newPlayer uuid nm socket =
     \<lparr>playerId = uuid, name = sanitizeName nm, team = A, ready = False,
      attempts = 0, errors = 0, ws = socket\<rparr>"

text \<open>
  The \<^verbatim>\<open>message\<close> handler of one connection. \<open>data\<close> is the parsed message, \<open>None\<close> when
  \<^verbatim>\<open>JSON.parse\<close> throws; \<open>uuid\<close> is the value \<^verbatim>\<open>crypto.randomUUID()\<close> returns if it is called.
  The result holds the registry, the connection's variables, what was sent, the host state and
  the unhandled rejection of \<^verbatim>\<open>start\<close>, if any. The parsed message is taken to be a value of
  the type \<^verbatim>\<open>ClientToServerMessage\<close>, as the source casts it without a check; frames that
  parse to anything else are outside this model. \<open>onMessage\<close> is the handler of a frame that
  is the last of its chunk of data, with the continuations of \<^verbatim>\<open>start\<close> and \<^verbatim>\<open>handleSubmit\<close>.
\<close>

definition onMessage ::
  "(WebSocket \<Rightarrow> bool) \<Rightarrow> Problem list \<Rightarrow> ('c, 'h) Vm \<Rightarrow> nat \<Rightarrow> int \<Rightarrow> string \<Rightarrow> WebSocket
     \<Rightarrow> RoomsMap \<Rightarrow> Session \<Rightarrow> 'h \<Rightarrow> ClientToServerMessage option
     \<Rightarrow> RoomsMap \<times> Session \<times> Sent \<times> 'h \<times> string option" where
  "onMessage opn problems vm rnd now uuid socket rooms sess h data =
     (case data of
        None \<Rightarrow> (rooms, sess, safeSend opn socket (Error ''Invalid message''), h, None)
      | Some (Join_room rid0 nm d0 t0) \<Rightarrow>
          (case currentRoom sess of
             Some cur \<Rightarrow> (rooms, sess, [], h, None)
           | None \<Rightarrow>
               let rid = toUpperCase rid0;
                   d = (case d0 of None \<Rightarrow> Easy | Some x \<Rightarrow> x);
                   t = (case t0 of None \<Rightarrow> Arrays | Some x \<Rightarrow> x)
               in (case getOrCreate rooms rid d t of
                     (room, rooms1) \<Rightarrow>
                       (let sess1 = sess\<lparr>selfId := Some uuid\<rparr>
                        in (case addPlayer opn room (newPlayer uuid nm socket) of
                              Inr (room', out) \<Rightarrow>
                                (rooms1(rid \<mapsto> room'), sess1\<lparr>currentRoom := Some rid\<rparr>,
                                 out @ safeSend opn socket
                                         (Room_state (serializeRoom room') (Some uuid)),
                                 h, None)
                            | Inl e \<Rightarrow>
                                (rooms1, sess1,
                                 safeSend opn socket (Error (orElse e ''Join failed'')),
                                 h, None)))))
      | Some (Ready rdy) \<Rightarrow>
          (case (currentRoom sess, selfId sess) of
             (Some rid, Some pid) \<Rightarrow>
               (case (if pid = [] then None else rooms rid) of
                  None \<Rightarrow> (rooms, sess, [], h, None)
                | Some room \<Rightarrow>
                    (case setReady opn problems rnd now room pid rdy of
                       (room', out, rej) \<Rightarrow> (rooms(rid \<mapsto> room'), sess, out, h, rej)))
           | _ \<Rightarrow> (rooms, sess, [], h, None))
      | Some (Chat_in text) \<Rightarrow>
          (case (currentRoom sess, selfId sess) of
             (Some rid, Some pid) \<Rightarrow>
               (case (if pid = [] then None else rooms rid) of
                  None \<Rightarrow> (rooms, sess, [], h, None)
                | Some room \<Rightarrow> (rooms, sess, handleChat opn room pid (take 400 text), h, None))
           | _ \<Rightarrow> (rooms, sess, [], h, None))
      | Some (Code_update code) \<Rightarrow> (rooms, sess, [], h, None)
      | Some (Cursor line column) \<Rightarrow> (rooms, sess, [], h, None)
      | Some (Submit_solution code) \<Rightarrow>
          (case (currentRoom sess, selfId sess) of
             (Some rid, Some pid) \<Rightarrow>
               (case (if pid = [] then None else rooms rid) of
                  None \<Rightarrow> (rooms, sess, [], h, None)
                | Some room \<Rightarrow>
                    (case handleSubmit opn now vm h room pid code of
                       (room', out, h') \<Rightarrow> (rooms(rid \<mapsto> room'), sess, out, h', None)))
           | _ \<Rightarrow> (rooms, sess, [], h, None))
      | Some Rematch \<Rightarrow>
          (case currentRoom sess of
             None \<Rightarrow> (rooms, sess, [], h, None)
           | Some rid \<Rightarrow>
               (case rooms rid of
                  None \<Rightarrow> (rooms, sess, [], h, None)
                | Some room \<Rightarrow>
                    (case rematch opn room of
                       (room', out) \<Rightarrow> (rooms(rid \<mapsto> room'), sess, out, h, None)))))"

definition onClose :: "(WebSocket \<Rightarrow> bool) \<Rightarrow> RoomsMap \<Rightarrow> Session \<Rightarrow> RoomsMap \<times> Sent" where
  "onClose opn rooms sess =
     (case (currentRoom sess, selfId sess) of
        (Some rid, Some pid) \<Rightarrow>
          (case (if pid = [] then None else rooms rid) of
             None \<Rightarrow> (rooms, [])
           | Some room \<Rightarrow>
               (case removePlayer opn room pid of
                  (room', out) \<Rightarrow> (removeIfEmpty (rooms(rid \<mapsto> room')) rid, out)))
      | _ \<Rightarrow> (rooms, []))"

subsection \<open>Frames that arrive together\<close>

text \<open>
  \<^verbatim>\<open>start\<close> and \<^verbatim>\<open>handleSubmit\<close> are \<^verbatim>\<open>async\<close>: each runs up to its \<^verbatim>\<open>await\<close> within the
  message handler that called it, and its continuation runs as a microtask once the running
  code has returned to the event loop. The socket emits the \<^verbatim>\<open>message\<close> events of the frames
  that arrive in one chunk of data one after the other, within one turn of the event loop,
  and does not wait for the promise of a handler. So the handlers of the frames of a chunk
  run in order, each up to its \<^verbatim>\<open>await\<close>, and then the continuations run in the same order.
  \<open>start\<close>, \<open>tryStart\<close>, \<open>setReady\<close>, \<open>handleSubmit\<close> and \<open>onMessage\<close> above are the case of a
  chunk of one frame; their halves follow. All frames of a chunk come from one connection;
  timer callbacks, \<^verbatim>\<open>close\<close> events and the frames of other connections are handled in other
  turns of the event loop, after the continuations.

  The first half of \<^verbatim>\<open>start\<close> ends with the promise of \<^verbatim>\<open>getRandomProblem\<close>, settled
  already: \<open>Inr\<close> the problem or \<open>Inl\<close> the message of the error.
\<close>

definition start_sync :: "Problem list \<Rightarrow> nat \<Rightarrow> Room \<Rightarrow> Room \<times> (string + Problem)" where
  "start_sync problems rnd r =
     (let r1 = r\<lparr>started := True, winner := None\<rparr>
      in (r1, getRandomProblem problems rnd (difficulty r1) (topic r1)))"

definition start_cont ::
  "(WebSocket \<Rightarrow> bool) \<Rightarrow> int \<Rightarrow> string + Problem \<Rightarrow> Room \<Rightarrow> Room \<times> Sent \<times> string option" where
  "start_cont opn now res r =
     (case res of
        Inl e \<Rightarrow> (r, [], Some e)
      | Inr p \<Rightarrow>
          (let r2 = r\<lparr>problem := Some p\<rparr>;
               r3 = r2\<lparr>endAt := Some (now + GAME_SECONDS * 1000)\<rparr>;
               out1 = broadcast opn r3
                        (Game_start p (now + GAME_SECONDS * 1000) (boilerplate p));
               out2 = broadcastState opn r3 None
           in (startTimer r3, out1 @ out2, None)))"

definition tryStart_sync ::
  "Problem list \<Rightarrow> nat \<Rightarrow> Room \<Rightarrow> Room \<times> (string + Problem) option" where
  "tryStart_sync problems rnd r =
     (if started r then (r, None)
      else if length (players r) \<noteq> 4 then (r, None)
      else if \<not> list_all (\<lambda>(k, p). ready p) (players r) then (r, None)
      else (case start_sync problems rnd r of (r1, res) \<Rightarrow> (r1, Some res)))"

definition setReady_sync ::
  "(WebSocket \<Rightarrow> bool) \<Rightarrow> Problem list \<Rightarrow> nat \<Rightarrow> Room \<Rightarrow> string \<Rightarrow> bool
     \<Rightarrow> Room \<times> Sent \<times> (string + Problem) option" where
  "setReady_sync opn problems rnd r pid rdy =
     (case map_of (players r) pid of
        None \<Rightarrow> (r, [], None)
      | Some p \<Rightarrow>
          let r' = r\<lparr>players := AList.update pid (p\<lparr>ready := rdy\<rparr>) (players r)\<rparr>;
              out = broadcastState opn r' None
          in (case tryStart_sync problems rnd r' of
                (r'', pending) \<Rightarrow> (r'', out, pending)))"

text \<open>
  The first half of \<^verbatim>\<open>handleSubmit\<close> ends with the player object \<open>p\<close> and the promise of
  \<^verbatim>\<open>evaluateSolution\<close>, which has run to its end and is settled: \<open>Inr\<close> the boolean or \<open>Inl\<close>
  the message of the error. The continuation reads \<open>p\<close> as it is by then: the room's entry
  under \<open>fromId\<close> (no frame of the same connection removes or replaces a player), or else
  the object as the first half left it, which is no longer in the room.
\<close>

definition handleSubmit_sync ::
  "('c, 'h) Vm \<Rightarrow> 'h \<Rightarrow> Room \<Rightarrow> string \<Rightarrow> string
     \<Rightarrow> Room \<times> 'h \<times> (Player \<times> (string + bool)) option" where
  "handleSubmit_sync vm h r fromId code =
     (case map_of (players r) fromId of
        None \<Rightarrow> (r, h, None)
      | Some p \<Rightarrow>
          (case problem r of
             None \<Rightarrow> (r, h, None)
           | Some prob \<Rightarrow>
               if \<not> started r then (r, h, None)
               else
                 (let p1 = p\<lparr>attempts := attempts p + 1\<rparr>;
                      r1 = r\<lparr>players := AList.update fromId p1 (players r)\<rparr>
                  in (case evaluateSolution vm code prob h of
                        (res, h') \<Rightarrow> (r1, h', Some (p1, res))))))"

definition submitFailed ::
  "(WebSocket \<Rightarrow> bool) \<Rightarrow> string \<Rightarrow> Player \<Rightarrow> string \<Rightarrow> Room \<Rightarrow> Room \<times> Sent" where
  "submitFailed opn fromId p0 text r =
     (case map_of (players r) fromId of
        None \<Rightarrow>
          (r, safeSend opn (ws p0) (Attempt_result False (Some text)) @ broadcastState opn r None)
      | Some p \<Rightarrow>
          (let p2 = p\<lparr>errors := errors p + 1\<rparr>;
               r2 = r\<lparr>players := AList.update fromId p2 (players r)\<rparr>
           in (r2,
               safeSend opn (ws p2) (Attempt_result False (Some text))
               @ broadcastState opn r2 None)))"

definition handleSubmit_cont ::
  "(WebSocket \<Rightarrow> bool) \<Rightarrow> int \<Rightarrow> string \<Rightarrow> Player \<Rightarrow> string + bool \<Rightarrow> Room \<Rightarrow> Room \<times> Sent" where
  "handleSubmit_cont opn now fromId p0 res r =
     (case res of
        Inr ok \<Rightarrow>
          if ok then
            (let p = (case map_of (players r) fromId of None \<Rightarrow> p0 | Some q \<Rightarrow> q)
             in (case finish opn now (Some (team p)) r of
                   (r3, out) \<Rightarrow> (r3, broadcast opn r (Attempt_result True None) @ out)))
          else submitFailed opn fromId p0 ''Wrong answer'' r
      | Inl msg \<Rightarrow> submitFailed opn fromId p0 (orElse msg ''Runtime error'') r)"

text \<open>
  What a handler leaves pending at its \<^verbatim>\<open>await\<close>, with the identifier of the room it belongs
  to: the continuation of \<^verbatim>\<open>start\<close> or of \<^verbatim>\<open>handleSubmit\<close>.
\<close>

datatype Pending =
    StartPending string "string + Problem"
  | SubmitPending string string Player "string + bool"

text \<open>
  The \<^verbatim>\<open>message\<close> handler up to the first \<^verbatim>\<open>await\<close> that suspends it. Only the \<^verbatim>\<open>ready\<close>
  and \<^verbatim>\<open>submit_solution\<close> cases reach one; the other cases are those of \<open>onMessage\<close>.
\<close>

definition onMessage_sync ::
  "(WebSocket \<Rightarrow> bool) \<Rightarrow> Problem list \<Rightarrow> ('c, 'h) Vm \<Rightarrow> nat \<Rightarrow> int \<Rightarrow> string \<Rightarrow> WebSocket
     \<Rightarrow> RoomsMap \<Rightarrow> Session \<Rightarrow> 'h \<Rightarrow> ClientToServerMessage option
     \<Rightarrow> RoomsMap \<times> Session \<times> Sent \<times> 'h \<times> Pending option" where
  "onMessage_sync opn problems vm rnd now uuid socket rooms sess h data =
     (case data of
        Some (Ready rdy) \<Rightarrow>
          (case (currentRoom sess, selfId sess) of
             (Some rid, Some pid) \<Rightarrow>
               (case (if pid = [] then None else rooms rid) of
                  None \<Rightarrow> (rooms, sess, [], h, None)
                | Some room \<Rightarrow>
                    (case setReady_sync opn problems rnd room pid rdy of
                       (room', out, pending) \<Rightarrow>
                         (rooms(rid \<mapsto> room'), sess, out, h,
                          map_option (StartPending rid) pending)))
           | _ \<Rightarrow> (rooms, sess, [], h, None))
      | Some (Submit_solution code) \<Rightarrow>
          (case (currentRoom sess, selfId sess) of
             (Some rid, Some pid) \<Rightarrow>
               (case (if pid = [] then None else rooms rid) of
                  None \<Rightarrow> (rooms, sess, [], h, None)
                | Some room \<Rightarrow>
                    (case handleSubmit_sync vm h room pid code of
                       (room', h', pending) \<Rightarrow>
                         (rooms(rid \<mapsto> room'), sess, [], h',
                          map_option (\<lambda>(p, res). SubmitPending rid pid p res) pending)))
           | _ \<Rightarrow> (rooms, sess, [], h, None))
      | _ \<Rightarrow>
          (case onMessage opn problems vm rnd now uuid socket rooms sess h data of
             (rooms', sess', out, h', rej) \<Rightarrow> (rooms', sess', out, h', None)))"

text \<open>A continuation runs on its room, at the clock reading \<open>now\<close>.\<close>

definition settle ::
  "(WebSocket \<Rightarrow> bool) \<Rightarrow> int \<Rightarrow> Pending \<Rightarrow> RoomsMap \<Rightarrow> RoomsMap \<times> Sent \<times> string option" where
  "settle opn now pending rooms =
     (case pending of
        StartPending rid res \<Rightarrow>
          (case rooms rid of
             None \<Rightarrow> (rooms, [], None)
           | Some room \<Rightarrow>
               (case start_cont opn now res room of
                  (room', out, rej) \<Rightarrow> (rooms(rid \<mapsto> room'), out, rej)))
      | SubmitPending rid fromId p res \<Rightarrow>
          (case rooms rid of
             None \<Rightarrow> (rooms, [], None)
           | Some room \<Rightarrow>
               (case handleSubmit_cont opn now fromId p res room of
                  (room', out) \<Rightarrow> (rooms(rid \<mapsto> room'), out, None))))"

text \<open>
  A frame with what its handler observes: the parsed message, the random draw, the fresh
  identifier and the clock reading of its continuation.
\<close>

datatype Frame = Frame "ClientToServerMessage option" nat string int

fun syncAll ::
  "(WebSocket \<Rightarrow> bool) \<Rightarrow> Problem list \<Rightarrow> ('c, 'h) Vm \<Rightarrow> WebSocket \<Rightarrow> Frame list
     \<Rightarrow> RoomsMap \<Rightarrow> Session \<Rightarrow> 'h
     \<Rightarrow> RoomsMap \<times> Session \<times> Sent \<times> 'h \<times> (int \<times> Pending) list" where
  "syncAll opn problems vm socket [] rooms sess h = (rooms, sess, [], h, [])"
| "syncAll opn problems vm socket (Frame data rnd uuid now # frames) rooms sess h =
     (case onMessage_sync opn problems vm rnd now uuid socket rooms sess h data of
        (rooms1, sess1, out1, h1, pending) \<Rightarrow>
          (case syncAll opn problems vm socket frames rooms1 sess1 h1 of
             (rooms2, sess2, out2, h2, pendings) \<Rightarrow>
               (rooms2, sess2, out1 @ out2, h2,
                (case pending of None \<Rightarrow> [] | Some p \<Rightarrow> [(now, p)]) @ pendings)))"

fun settleAll ::
  "(WebSocket \<Rightarrow> bool) \<Rightarrow> (int \<times> Pending) list \<Rightarrow> RoomsMap
     \<Rightarrow> RoomsMap \<times> Sent \<times> string list" where
  "settleAll opn [] rooms = (rooms, [], [])"
| "settleAll opn ((now, pending) # pendings) rooms =
     (case settle opn now pending rooms of
        (rooms1, out1, rej) \<Rightarrow>
          (case settleAll opn pendings rooms1 of
             (rooms2, out2, rejs) \<Rightarrow>
               (rooms2, out1 @ out2, (case rej of None \<Rightarrow> [] | Some e \<Rightarrow> [e]) @ rejs)))"

text \<open>
  One turn of the event loop on a chunk of frames of the connection \<open>socket\<close>: the result
  holds the registry, the connection's variables, what was sent, the host state and the
  unhandled rejections.
\<close>

definition onChunk ::
  "(WebSocket \<Rightarrow> bool) \<Rightarrow> Problem list \<Rightarrow> ('c, 'h) Vm \<Rightarrow> WebSocket \<Rightarrow> Frame list
     \<Rightarrow> RoomsMap \<Rightarrow> Session \<Rightarrow> 'h
     \<Rightarrow> RoomsMap \<times> Session \<times> Sent \<times> 'h \<times> string list" where
  "onChunk opn problems vm socket frames rooms sess h =
     (case syncAll opn problems vm socket frames rooms sess h of
        (rooms1, sess1, out1, h1, pendings) \<Rightarrow>
          (case settleAll opn pendings rooms1 of
             (rooms2, out2, rejs) \<Rightarrow> (rooms2, sess1, out1 @ out2, h1, rejs)))"

subsection \<open>Sequences of operations on one room\<close>

text \<open>
  The calls that reach a room from outside: the connection handlers call \<^verbatim>\<open>addPlayer\<close>,
  \<^verbatim>\<open>removePlayer\<close>, \<^verbatim>\<open>setReady\<close>, \<^verbatim>\<open>handleSubmit\<close> and \<^verbatim>\<open>rematch\<close>, the interval calls
  the timer callback. \<^verbatim>\<open>tryStart\<close>, \<^verbatim>\<open>start\<close> and \<^verbatim>\<open>finish\<close> are private and run inside
  these. Each operation carries the clock reading and the random draw it observes. A
  rejected \<^verbatim>\<open>addPlayer\<close> leaves the room as it was.
\<close>

datatype RoomOp =
    AddPlayer Player
  | RemovePlayer string
  | SetReady string bool nat int
  | Tick int
  | HandleSubmit string string int
  | RematchOp

fun applyOp ::
  "(WebSocket \<Rightarrow> bool) \<Rightarrow> Problem list \<Rightarrow> ('c, 'h) Vm \<Rightarrow> RoomOp \<Rightarrow> Room \<times> 'h \<Rightarrow> Room \<times> 'h" where
  "applyOp opn problems vm (AddPlayer p) (r, h) =
     (case addPlayer opn r p of Inl e \<Rightarrow> (r, h) | Inr (r', out) \<Rightarrow> (r', h))"
| "applyOp opn problems vm (RemovePlayer pid) (r, h) = (fst (removePlayer opn r pid), h)"
| "applyOp opn problems vm (SetReady pid rdy rnd now) (r, h) =
     (fst (setReady opn problems rnd now r pid rdy), h)"
| "applyOp opn problems vm (Tick now) (r, h) = (fst (tick opn now r), h)"
| "applyOp opn problems vm (HandleSubmit fromId code now) (r, h) =
     (case handleSubmit opn now vm h r fromId code of (r', out, h') \<Rightarrow> (r', h'))"
| "applyOp opn problems vm RematchOp (r, h) = (fst (rematch opn r), h)"

fun runOps ::
  "(WebSocket \<Rightarrow> bool) \<Rightarrow> Problem list \<Rightarrow> ('c, 'h) Vm \<Rightarrow> RoomOp list \<Rightarrow> Room \<times> 'h \<Rightarrow> Room \<times> 'h" where
  "runOps opn problems vm [] s = s"
| "runOps opn problems vm (x # xs) s = runOps opn problems vm xs (applyOp opn problems vm x s)"


subsection \<open>Sample engines\<close>

text \<open>
  Engines for the concrete runs below. \<open>sampleStringify\<close> prints the values used there in the
  way \<^verbatim>\<open>JSON.stringify\<close> does: texts that need no escapes and integers of fewer than 22
  digits. It is used for these runs only.
\<close>

fun showNat :: "nat \<Rightarrow> string" where
  "showNat n =
     (if n < 10 then [''0123456789'' ! n] else showNat (n div 10) @ [''0123456789'' ! (n mod 10)])"

fun joinComma :: "string list \<Rightarrow> string" where
  "joinComma [] = []"
| "joinComma [x] = x"
| "joinComma (x # y # ys) = x @ '','' @ joinComma (y # ys)"

fun sampleStringify :: "jsval \<Rightarrow> string option" where
  "sampleStringify Undefined = None"
| "sampleStringify (Function f) = None"
| "sampleStringify Null = Some ''null''"
| "sampleStringify (Bool b) = Some (if b then ''true'' else ''false'')"
| "sampleStringify (Num n) =
     Some (if n < 0 then ''-'' @ showNat (nat (- n)) else showNat (nat n))"
| "sampleStringify (Str s) = Some ([CHR 0x22] @ s @ [CHR 0x22])"
| "sampleStringify (Arr xs) =
     Some (''['' @ joinComma (map (\<lambda>x. case sampleStringify x of None \<Rightarrow> ''null'' | Some s \<Rightarrow> s) xs)
           @ '']'')"
| "sampleStringify (Obj kvs) =
     Some (''{''
           @ joinComma (concat (map (\<lambda>(k, v). case sampleStringify v of
                                                   None \<Rightarrow> []
                                                 | Some s \<Rightarrow> [[CHR 0x22] @ k @ [CHR 0x22] @ '':'' @ s])
                                    kvs))
           @ ''}'')"

text \<open>
  An engine given by a table from scripts to the values they complete with; any other script
  throws. It has no state of its own and never touches the host state.
\<close>

definition tableVm :: "(string \<times> jsval) list \<Rightarrow> (unit, 'h) Vm" where
  "tableVm table =
     \<lparr>createContext = (\<lambda>globals. ()),
      runInContext = (\<lambda>script c h.
         (case map_of table script of None \<Rightarrow> Inl ''ReferenceError'' | Some v \<Rightarrow> Inr v, c, h)),
      stringify = (\<lambda>h v. Inr (sampleStringify v))\<rparr>"

text \<open>
  The engine on a submission for the seeded sum-indices problem that counts its calls,
  \<^verbatim>\<open>var n = 0; function twoSum(nums, target) { n += 1; return n === 2 ? [1, 2] : [0, 1] }\<close>:
  the context is the value of the global \<open>n\<close>.
\<close>

definition countingCode :: string where
  "countingCode =
     ''var n = 0; function twoSum(nums, target) { n += 1; return n === 2 ? [1, 2] : [0, 1] }''"

definition countingVm :: "(nat, 'h) Vm" where
  "countingVm =
     \<lparr>createContext = (\<lambda>globals. 0),
      runInContext = (\<lambda>script c h.
         if script = wrapped countingCode ''twoSum'' then (Inr (Function ''twoSum''), 0, h)
         else if take 12 script = ''(twoSum)(...''
         then (Inr (if c + 1 = 2 then Arr [Num 1, Num 2] else Arr [Num 0, Num 1]), c + 1, h)
         else (Inl ''ReferenceError'', c, h)),
      stringify = (\<lambda>h v. Inr (sampleStringify v))\<rparr>"

text \<open>
  The engine on a submission for the seeded sum-indices problem that tallies its calls and
  returns the same array every time,
  \<^verbatim>\<open>var calls = 0; function twoSum(nums, target) { calls += 1; return [0, 1] }\<close>: the
  context is the value of the global \<open>calls\<close>.
\<close>

definition tallyCode :: string where
  "tallyCode = ''var calls = 0; function twoSum(nums, target) { calls += 1; return [0, 1] }''"

definition tallyVm :: "(nat, 'h) Vm" where
  "tallyVm =
     \<lparr>createContext = (\<lambda>globals. 0),
      runInContext = (\<lambda>script c h.
         if script = wrapped tallyCode ''twoSum'' then (Inr (Function ''twoSum''), 0, h)
         else if take 12 script = ''(twoSum)(...''
         then (Inr (Arr [Num 0, Num 1]), c + 1, h)
         else (Inl ''ReferenceError'', c, h)),
      stringify = (\<lambda>h v. Inr (sampleStringify v))\<rparr>"

text \<open>
  One engine on three submissions for the seeded anagram problem: its starter code, which
  solves it; a submission that answers at random,
  \<^verbatim>\<open>function isAnagram(s, t) { return Math.random() < 0.5 }\<close>; and a submission that
  replaces the host's serializer,
  \<^verbatim>\<open>JSON.stringify = function () { return "[]" }; function isAnagram(s, t) { return true }\<close>.
  The host state holds the outcomes of the coming comparisons, one for each draw of the
  host's generator, and whether \<^verbatim>\<open>JSON.stringify\<close> has been replaced. The context tells
  which submission is loaded: 0 none, 1 the starter code, 2 the random one, 3 the replacing
  one. With the serializer replaced every call script is \<^verbatim>\<open>(isAnagram)(...[])\<close>, on which
  the starter code throws when it reads the length of \<^verbatim>\<open>undefined\<close>.
\<close>

record Host =
  draws :: "bool list"
  patched :: bool

definition randomCode :: string where
  "randomCode = ''function isAnagram(s, t) { return Math.random() < 0.5 }''"

definition patchCode :: string where
  "patchCode =
     ''JSON.stringify = function () { return '' @ [CHR 0x22] @ ''[]'' @ [CHR 0x22]
     @ '' }; function isAnagram(s, t) { return true }''"

definition draw :: "nat \<Rightarrow> Host \<Rightarrow> (string + jsval) \<times> nat \<times> Host" where
  "draw c h =
     (case draws h of
        [] \<Rightarrow> (Inr (Bool False), c, h)
      | b # bs \<Rightarrow> (Inr (Bool b), c, h\<lparr>draws := bs\<rparr>))"

definition anagramCall :: "jsval \<Rightarrow> string \<Rightarrow> nat \<Rightarrow> Host \<Rightarrow> (string + jsval) \<times> nat \<times> Host" where
  "anagramCall starterResult starterError c h =
     (if c = 1 then (if starterError = [] then Inr starterResult else Inl starterError, c, h)
      else if c = 2 then draw c h
      else if c = 3 then (Inr (Bool True), c, h)
      else (Inl ''isAnagram is not defined'', c, h))"

definition anagramVm :: "(nat, Host) Vm" where
  "anagramVm =
     \<lparr>createContext = (\<lambda>globals. 0),
      runInContext = (\<lambda>script c h.
         if script = wrapped (boilerplate seed_isAnagram) ''isAnagram''
         then (Inr (Function ''isAnagram''), 1, h)
         else if script = wrapped randomCode ''isAnagram''
         then (Inr (Function ''isAnagram''), 2, h)
         else if script = wrapped patchCode ''isAnagram''
         then (Inr (Function ''isAnagram''), 3, h\<lparr>patched := True\<rparr>)
         else if script = callScript ''isAnagram''
                            (''['' @ [CHR 0x22] @ ''anagram'' @ [CHR 0x22] @ '','' @ [CHR 0x22]
                             @ ''nagaram'' @ [CHR 0x22] @ '']'')
         then anagramCall (Bool True) [] c h
         else if script = callScript ''isAnagram''
                            (''['' @ [CHR 0x22] @ ''rat'' @ [CHR 0x22] @ '','' @ [CHR 0x22]
                             @ ''car'' @ [CHR 0x22] @ '']'')
         then anagramCall (Bool False) [] c h
         else if script = callScript ''isAnagram'' ''[]''
         then anagramCall Undefined
                (''Cannot read properties of undefined (reading '' @ [CHR 0x27] @ ''length''
                 @ [CHR 0x27] @ '')'') c h
         else (Inl ''SyntaxError'', c, h)),
      stringify = (\<lambda>h v. if patched h then Inr (Some ''[]'') else Inr (sampleStringify v))\<rparr>"

text \<open>A host in which the serializer is the original and the next draws are set.\<close>

definition host0 :: Host where
  "host0 = \<lparr>draws = [True, False, False], patched = False\<rparr>"

subsection \<open>A sample room\<close>

text \<open>
  Four connections with open sockets join the room \<open>ABCD\<close>; the first three report ready.
  \<open>activeRoom\<close> is the Easy/Arrays room after the fourth has reported ready at time 1000.
\<close>

definition allOpen :: "WebSocket \<Rightarrow> bool" where
  "allOpen s = True"

definition fourJoins :: "RoomOp list" where
  "fourJoins =
     [AddPlayer (newPlayer ''p1'' ''Ann'' 1), AddPlayer (newPlayer ''p2'' ''Bob'' 2),
      AddPlayer (newPlayer ''p3'' ''Cy'' 3), AddPlayer (newPlayer ''p4'' ''Di'' 4)]"

definition threeReady :: "RoomOp list" where
  "threeReady = [SetReady ''p1'' True 0 0, SetReady ''p2'' True 0 0, SetReady ''p3'' True 0 0]"

definition lobby :: "Difficulty \<Rightarrow> Topic \<Rightarrow> Room" where
  "lobby d t =
     fst (runOps allOpen seedProblems (tableVm [] :: (unit, unit) Vm) (fourJoins @ threeReady)
            (newRoom ''ABCD'' d t, ()))"

definition activeRoom :: Room where
  "activeRoom = fst (setReady allOpen seedProblems 0 1000 (lobby Easy Arrays) ''p4'' True)"

text \<open>
  The engine on the starter code of the seeded sum-indices problem, which solves it, and on a
  submission that returns the same array for every input.
\<close>

definition twoSumTable :: "(string \<times> jsval) list" where
  "twoSumTable =
     [(wrapped (boilerplate seed_twoSum) ''twoSum'', Function ''twoSum''),
      (callScript ''twoSum'' ''[[2,7,11,15],9]'', Arr [Num 0, Num 1]),
      (callScript ''twoSum'' ''[[3,2,4],6]'', Arr [Num 1, Num 2]),
      (callScript ''twoSum'' ''[[3,3],6]'', Arr [Num 0, Num 1])]"

definition constantCode :: string where
  "constantCode = ''function twoSum(nums, target) { return [0, 1] }''"

definition constantTable :: "(string \<times> jsval) list" where
  "constantTable =
     [(wrapped constantCode ''twoSum'', Function ''twoSum''),
      (callScript ''twoSum'' ''[[2,7,11,15],9]'', Arr [Num 0, Num 1]),
      (callScript ''twoSum'' ''[[3,2,4],6]'', Arr [Num 0, Num 1]),
      (callScript ''twoSum'' ''[[3,3],6]'', Arr [Num 0, Num 1])]"

text \<open>A submission that does not define the function: the export line completes with null.\<close>

definition otherCode :: string where
  "otherCode = ''function add(a, b) { return a + b }''"

definition otherTable :: "(string \<times> jsval) list" where
  "otherTable = [(wrapped otherCode ''twoSum'', Null)]"

text \<open>
  The connection of the player \<open>p2\<close> of the sample room, with the engine on the starter code:
  a frame that submits the starter code, a frame that asks for a rematch, and a turn of the
  event loop on a chunk of frames of this connection.
\<close>

definition passingFrame :: Frame where
  "passingFrame = Frame (Some (Submit_solution (boilerplate seed_twoSum))) 0 ''u'' 5000"

definition rematchFrame :: Frame where
  "rematchFrame = Frame (Some Rematch) 0 ''u'' 5000"

definition sampleRooms :: RoomsMap where
  "sampleRooms = [''ABCD'' \<mapsto> activeRoom]"

definition sampleChunk ::
  "Frame list \<Rightarrow> RoomsMap \<Rightarrow> RoomsMap \<times> Session \<times> Sent \<times> unit \<times> string list" where
  "sampleChunk frames rooms =
     onChunk allOpen seedProblems (tableVm twoSumTable) 2 frames rooms
       \<lparr>currentRoom = Some ''ABCD'', selfId = Some ''p2''\<rparr> ()"

subsection \<open>Vocabulary of the statements\<close>

text \<open>The sockets a broadcast reaches: those of the room's players that are open, in order.\<close>

definition recipients :: "(WebSocket \<Rightarrow> bool) \<Rightarrow> Room \<Rightarrow> WebSocket list" where
  "recipients opn r = filter opn (map (\<lambda>(k, p). ws p) (players r))"

text \<open>
  What \<^verbatim>\<open>handleSubmit\<close> leaves when a submission of player \<open>p\<close>, stored under \<open>fromId\<close>, is
  rejected with the diagnostic \<open>text\<close>, and when it is accepted.
\<close>

definition rejected ::
  "(WebSocket \<Rightarrow> bool) \<Rightarrow> Room \<Rightarrow> string \<Rightarrow> Player \<Rightarrow> string \<Rightarrow> Room \<Rightarrow> Sent \<Rightarrow> bool" where
  "rejected opn r fromId p text r' out =
     (map_of (players r') = (map_of (players r))(fromId \<mapsto> p\<lparr>attempts := attempts p + 1, errors := errors p + 1\<rparr>)
      \<and> map fst (players r') = map fst (players r)
      \<and> started r' \<and> winner r' = winner r \<and> problem r' = problem r \<and> endAt r' = endAt r
      \<and> timer r' = timer r
      \<and> out = safeSend opn (ws p) (Attempt_result False (Some text))
                @ map (\<lambda>s. (s, Room_state (serializeRoom r') None)) (recipients opn r))"

definition accepted ::
  "(WebSocket \<Rightarrow> bool) \<Rightarrow> Room \<Rightarrow> string \<Rightarrow> Player \<Rightarrow> Room \<Rightarrow> Sent \<Rightarrow> bool" where
  "accepted opn r fromId p r' out =
     (map_of (players r') = (map_of (players r))(fromId \<mapsto> p\<lparr>attempts := attempts p + 1\<rparr>)
      \<and> map fst (players r') = map fst (players r)
      \<and> \<not> started r' \<and> winner r' = Some (team p) \<and> \<not> timer r'
      \<and> (\<exists>timeTaken.
            out = map (\<lambda>s. (s, Attempt_result True None)) (recipients opn r)
                  @ map (\<lambda>s. (s, Game_over (Some (team p)) timeTaken)) (recipients opn r)
                  @ map (\<lambda>s. (s, Room_state (serializeRoom r') None)) (recipients opn r)))"

text \<open>
  The test vectors \<open>ts\<close>, called in order from the context \<open>c\<close> and host state \<open>h\<close>, all
  match and leave \<open>c'\<close> and \<open>h'\<close>: for each vector the arguments serialize, the call
  completes with a value, and the value and the expected value have the same serialized form.
\<close>

fun vectorsMatch ::
  "('c, 'h) Vm \<Rightarrow> string \<Rightarrow> TestVector list \<Rightarrow> 'c \<Rightarrow> 'h \<Rightarrow> 'c \<Rightarrow> 'h \<Rightarrow> bool" where
  "vectorsMatch vm fn [] c h c' h' = (c' = c \<and> h' = h)"
| "vectorsMatch vm fn (t # ts) c h c' h' =
     (\<exists>s out c1 h1 so.
        stringify vm h (args t) = Inr s
        \<and> runInContext vm (callScript fn (interpolate s)) c h = (Inr out, c1, h1)
        \<and> stringify vm h1 out = Inr so
        \<and> stringify vm h1 (expected t) = Inr so
        \<and> vectorsMatch vm fn ts c1 h1 c' h')"

text \<open>
  A script runs alike in the host states \<open>h\<close> and \<open>h'\<close>: it completes with the same result
  and leaves the same context, and it stays within the contexts \<open>C\<close> and host states \<open>H\<close>.
\<close>

definition sameRun ::
  "('c, 'h) Vm \<Rightarrow> 'c set \<Rightarrow> 'h set \<Rightarrow> string \<Rightarrow> 'c \<Rightarrow> 'h \<Rightarrow> 'h \<Rightarrow> bool" where
  "sameRun vm C H script c h h' =
     (case runInContext vm script c h of
        (res, c1, h1) \<Rightarrow>
          (case runInContext vm script c h' of
             (res', c1', h1') \<Rightarrow> res' = res \<and> c1' = c1 \<and> c1 \<in> C \<and> h1 \<in> H \<and> h1' \<in> H))"

text \<open>
  A submission does not depend on the host: over a set \<open>C\<close> of contexts and a set \<open>H\<close> of
  host states that its evaluation does not leave, its own scripts (the wrapped code and the
  calls of the problem's test vectors) run alike in any two host states, and the serializer
  gives the same form, in any two host states, to the arguments and expected values of the
  test vectors and to the values the calls complete with.
\<close>

definition hostIndependent ::
  "('c, 'h) Vm \<Rightarrow> string \<Rightarrow> Problem \<Rightarrow> 'c set \<Rightarrow> 'h set \<Rightarrow> bool" where
  "hostIndependent vm code prob C H =
     (createContext vm contextGlobals \<in> C
      \<and> (\<forall>t\<in>set (tests prob). \<forall>h\<in>H. \<forall>h'\<in>H.
             stringify vm h (args t) = stringify vm h' (args t)
             \<and> stringify vm h (expected t) = stringify vm h' (expected t))
      \<and> (\<forall>c\<in>C. \<forall>h\<in>H. \<forall>h'\<in>H. sameRun vm C H (wrapped code (functionName prob)) c h h')
      \<and> (\<forall>t\<in>set (tests prob). \<forall>c\<in>C. \<forall>h\<in>H. \<forall>h'\<in>H. \<forall>s out c1 h1 h1'.
             stringify vm h (args t) = Inr s
             \<longrightarrow> sameRun vm C H (callScript (functionName prob) (interpolate s)) c h h'
                 \<and> (runInContext vm (callScript (functionName prob) (interpolate s)) c h
                        = (Inr out, c1, h1)
                      \<and> runInContext vm (callScript (functionName prob) (interpolate s)) c h'
                        = (Inr out, c1, h1')
                      \<longrightarrow> stringify vm h1 out = stringify vm h1' out)))"

text \<open>
  The keys and teams of a room's players, and the invariant of team assignment: keys are
  distinct and no team has more than two members.
\<close>

definition roster :: "Room \<Rightarrow> (string \<times> TeamKey) list" where
  "roster r = map (\<lambda>(k, p). (k, team p)) (players r)"


text \<open>
  The invariant of a room of category \<open>(d, t)\<close>: at most four players, and a started room has
  a problem and a deadline.
\<close>

definition roundInv :: "Difficulty \<Rightarrow> Topic \<Rightarrow> Room \<Rightarrow> bool" where
  "roundInv d t r =
     (difficulty r = d \<and> topic r = t \<and> length (players r) \<le> 4
      \<and> (started r \<longrightarrow> problem r \<noteq> None \<and> endAt r \<noteq> None))"


section \<open>Evaluation of the sample room\<close>

lemmas room_defs =
  newRoom_def safeSend_def broadcast_def serializeRoom_def broadcastState_def countTeam_def
  addPlayer_def removePlayer_def stopTimer_def noEndAt_def startTimer_def finish_def start_def
  tryStart_def setReady_def tick_def handleChat_def rematch_def

lemma seed_categories:
  "map (\<lambda>p. (Problem.difficulty p, Problem.topic p)) seedProblems =
     [(Easy, Arrays), (Easy, Strings), (Medium, Trees), (Medium, Graphs), (Hard, DP),
      (Hard, Graphs)]"
  by (simp add: seedProblems_def seed_twoSum_def seed_isAnagram_def seed_maxDepth_def
      seed_numIslands_def seed_minDistance_def seed_canFinish_def)

lemma getRandomProblem_Easy_Trees:
  "getRandomProblem seedProblems rnd Easy Trees = Inl ''No problems in this category.''"
  using seed_categories by (simp add: getRandomProblem_def seedProblems_def)

lemma getRandomProblem_Easy_Arrays:
  "getRandomProblem seedProblems rnd Easy Arrays = Inr seed_twoSum"
  using seed_categories by (simp add: getRandomProblem_def seedProblems_def)

lemma sanitize_samples:
  "sanitizeName ''Ann'' = ''Ann''" "sanitizeName ''Bob'' = ''Bob''"
  "sanitizeName ''Cy'' = ''Cy''" "sanitizeName ''Di'' = ''Di''"
  by (simp_all add: sanitizeName_def orElse_def isNameChar_def)

lemma lobby_eq:
  "lobby d t =
     \<lparr>roomId = ''ABCD'', difficulty = d, topic = t,
      players =
        [(''p1'', \<lparr>playerId = ''p1'', name = ''Ann'', team = A, ready = True,
                   attempts = 0, errors = 0, ws = 1\<rparr>),
         (''p2'', \<lparr>playerId = ''p2'', name = ''Bob'', team = B, ready = True,
                   attempts = 0, errors = 0, ws = 2\<rparr>),
         (''p3'', \<lparr>playerId = ''p3'', name = ''Cy'', team = A, ready = True,
                   attempts = 0, errors = 0, ws = 3\<rparr>),
         (''p4'', \<lparr>playerId = ''p4'', name = ''Di'', team = B, ready = False,
                   attempts = 0, errors = 0, ws = 4\<rparr>)],
      started = False, winner = None, problem = None, endAt = None, timer = False\<rparr>"
  by (simp add: lobby_def fourJoins_def threeReady_def newPlayer_def sanitize_samples
      room_defs allOpen_def)

lemma activeRoom_eq:
  "activeRoom =
     \<lparr>roomId = ''ABCD'', difficulty = Easy, topic = Arrays,
      players =
        [(''p1'', \<lparr>playerId = ''p1'', name = ''Ann'', team = A, ready = True,
                   attempts = 0, errors = 0, ws = 1\<rparr>),
         (''p2'', \<lparr>playerId = ''p2'', name = ''Bob'', team = B, ready = True,
                   attempts = 0, errors = 0, ws = 2\<rparr>),
         (''p3'', \<lparr>playerId = ''p3'', name = ''Cy'', team = A, ready = True,
                   attempts = 0, errors = 0, ws = 3\<rparr>),
         (''p4'', \<lparr>playerId = ''p4'', name = ''Di'', team = B, ready = True,
                   attempts = 0, errors = 0, ws = 4\<rparr>)],
      started = True, winner = None, problem = Some seed_twoSum, endAt = Some 1201000,
      timer = True\<rparr>"
  by (simp add: activeRoom_def lobby_eq room_defs allOpen_def getRandomProblem_Easy_Arrays
      GAME_SECONDS_def)

lemma broadcast_recipients:
  "broadcast opn r msg = map (\<lambda>s. (s, msg)) (recipients opn r)"
proof -
  have "concat (map (\<lambda>(k, p). safeSend opn (ws p) msg) ps)
        = map (\<lambda>s. (s, msg)) (filter opn (map (\<lambda>(k, p). ws p) ps))" for ps
    by (induction ps) (auto simp: safeSend_def)
  then show ?thesis by (simp add: broadcast_def recipients_def)
qed

section \<open>Starting a round\<close>

text \<open>
  When \<^verbatim>\<open>getRandomProblem\<close> throws, \<^verbatim>\<open>start\<close> has set \<open>started\<close> and \<open>winner\<close> and does
  nothing more: nothing is sent and the rejection is left unhandled.
\<close>

lemma start_empty_pool:
  "getRandomProblem problems rnd (difficulty r) (topic r) = Inl e \<Longrightarrow>
   start opn problems rnd now r = (r\<lparr>started := True, winner := None\<rparr>, [], Some e)"
  by (simp add: start_def)

text \<open>
  The start condition, and what \<^verbatim>\<open>start\<close> does when the category has a problem: the deadline
  is 1200 seconds after the current time, every open socket receives the round-start message
  and the room state, and the timer is installed.
\<close>

lemma tryStart_gate:
  "tryStart opn problems rnd now r =
     (if \<not> started r \<and> length (players r) = 4 \<and> list_all (\<lambda>(k, p). ready p) (players r)
      then start opn problems rnd now r else (r, [], None))"
  by (simp add: tryStart_def)

lemma start_sets_deadline:
  assumes "getRandomProblem problems rnd (difficulty r) (topic r) = Inr prob"
  shows "start opn problems rnd now r =
           (r\<lparr>started := True, winner := None, problem := Some prob,
              endAt := Some (now + 1200 * 1000),
              timer := (if now + 1200 * 1000 = 0 then timer r else True)\<rparr>,
            map (\<lambda>s. (s, Game_start prob (now + 1200 * 1000) (boilerplate prob))) (recipients opn r)
            @ map (\<lambda>s. (s, Room_state
                            (serializeRoom (r\<lparr>started := True, winner := None, problem := Some prob,
                                               endAt := Some (now + 1200 * 1000)\<rparr>)) None))
                  (recipients opn r),
            None)"
  using assms
  by (simp add: start_def Let_def GAME_SECONDS_def startTimer_def stopTimer_def noEndAt_def
      broadcastState_def broadcast_recipients recipients_def)

text \<open>
  For a category that has a problem, every sequence of operations keeps the room within four
  players and keeps \<open>started\<close> together with a problem and a deadline.
\<close>

lemma getRandomProblem_nonempty:
  "filter (\<lambda>p. Problem.difficulty p = d \<and> Problem.topic p = t) problems \<noteq> [] \<Longrightarrow>
   \<exists>prob. getRandomProblem problems rnd d t = Inr prob"
  by (simp add: getRandomProblem_def Let_def)

lemma roundInv_start:
  assumes "filter (\<lambda>p. Problem.difficulty p = d \<and> Problem.topic p = t) problems \<noteq> []"
    and "difficulty r = d" "topic r = t" "length (players r) \<le> 4"
  shows "roundInv d t (fst (start opn problems rnd now r))"
proof -
  from getRandomProblem_nonempty [OF assms(1), of rnd] assms(2,3)
  obtain prob where "getRandomProblem problems rnd (difficulty r) (topic r) = Inr prob"
    by auto
  from start_sets_deadline [OF this] assms show ?thesis
    by (simp add: roundInv_def)
qed

lemma roundInv_players:
  "roundInv d t r \<Longrightarrow> length ps \<le> 4 \<Longrightarrow> roundInv d t (r\<lparr>players := ps\<rparr>)"
  by (simp add: roundInv_def)

lemma roundInv_finish: "roundInv d t r \<Longrightarrow> roundInv d t (fst (finish opn now w r))"
  by (simp add: finish_def Let_def stopTimer_def roundInv_def)

lemma roundInv_stopTimer: "roundInv d t r \<Longrightarrow> roundInv d t (stopTimer r)"
  by (simp add: stopTimer_def roundInv_def)

lemma update_keeps_length:
  "map_of ps k = Some p \<Longrightarrow> length (AList.update k p' ps) = length ps"
  by (induction ps) (auto split: if_splits)

lemma roundInv_setReady:
  assumes "filter (\<lambda>p. Problem.difficulty p = d \<and> Problem.topic p = t) problems \<noteq> []"
    and "roundInv d t r"
  shows "roundInv d t (fst (setReady opn problems rnd now r pid rdy))"
proof (cases "map_of (players r) pid")
  case None
  with assms show ?thesis by (simp add: setReady_def)
next
  case (Some p)
  let ?r = "r\<lparr>players := AList.update pid (p\<lparr>ready := rdy\<rparr>) (players r)\<rparr>"
  have inv: "roundInv d t ?r"
    using assms(2) Some by (intro roundInv_players) (simp_all add: update_keeps_length roundInv_def)
  have eq: "fst (setReady opn problems rnd now r pid rdy) = fst (tryStart opn problems rnd now ?r)"
    using Some by (simp add: setReady_def Let_def split: prod.splits)
  show ?thesis
  proof (cases "\<not> started ?r \<and> length (players ?r) = 4 \<and> list_all (\<lambda>(k, p). ready p) (players ?r)")
    case True
    then have "tryStart opn problems rnd now ?r = start opn problems rnd now ?r"
      by (simp add: tryStart_gate)
    with eq inv roundInv_start [OF assms(1), of ?r opn rnd now] show ?thesis
      by (simp add: roundInv_def)
  next
    case False
    then have "tryStart opn problems rnd now ?r = (?r, [], None)"
      by (auto simp: tryStart_gate)
    with eq inv show ?thesis by simp
  qed
qed

lemma roundInv_tick: "roundInv d t r \<Longrightarrow> roundInv d t (fst (tick opn now r))"
  using roundInv_finish [OF roundInv_stopTimer, of d t r opn now None]
  by (simp add: tick_def split: option.splits)

lemma roundInv_rematch: "roundInv d t r \<Longrightarrow> roundInv d t (fst (rematch opn r))"
  by (simp add: rematch_def Let_def stopTimer_def roundInv_def)

lemma update_length_le: "length (AList.update k v ps) \<le> Suc (length ps)"
  by (induction ps) auto

lemma roundInv_addPlayer:
  "roundInv d t r \<Longrightarrow> addPlayer opn r p = Inr (r', out) \<Longrightarrow> roundInv d t r'"
proof -
  assume inv: "roundInv d t r" and ok: "addPlayer opn r p = Inr (r', out)"
  from ok have small: "length (players r) < 4"
    by (auto simp: addPlayer_def split: if_splits)
  let ?p = "p\<lparr>team := (if countTeam A r \<le> countTeam B r then A else B)\<rparr>"
  from ok small have r': "r' = r\<lparr>players := AList.update (playerId p) ?p (players r)\<rparr>"
    by (auto simp: addPlayer_def Let_def)
  have "length (AList.update (playerId p) ?p (players r)) \<le> Suc (length (players r))"
    by (rule update_length_le)
  with small have "length (AList.update (playerId p) ?p (players r)) \<le> 4" by simp
  with inv r' show ?thesis by (simp add: roundInv_players)
qed

lemma roundInv_removePlayer: "roundInv d t r \<Longrightarrow> roundInv d t (fst (removePlayer opn r pid))"
proof -
  assume inv: "roundInv d t r"
  have "length (AList.delete pid (players r)) \<le> length (players r)"
    by (rule length_delete_le)
  with inv have "length (AList.delete pid (players r)) \<le> 4" by (simp add: roundInv_def)
  with inv have "roundInv d t (r\<lparr>players := AList.delete pid (players r)\<rparr>)"
    by (rule roundInv_players)
  moreover have "fst (removePlayer opn r pid) = r\<lparr>players := AList.delete pid (players r)\<rparr>"
    by (simp add: removePlayer_def Let_def)
  ultimately show ?thesis by simp
qed

lemma roundInv_handleSubmit:
  assumes "roundInv d t r"
  shows "roundInv d t (fst (handleSubmit opn now vm h r fromId code))"
proof (cases "map_of (players r) fromId = None \<or> problem r = None \<or> \<not> started r")
  case True
  with assms show ?thesis by (auto simp: handleSubmit_def split: option.splits)
next
  case False
  then obtain p prob where known: "map_of (players r) fromId = Some p"
    and prob: "problem r = Some prob" and act: "started r"
    by auto
  let ?p1 = "p\<lparr>attempts := attempts p + 1\<rparr>"
  let ?r1 = "r\<lparr>players := AList.update fromId ?p1 (players r)\<rparr>"
  let ?p2 = "?p1\<lparr>errors := errors ?p1 + 1\<rparr>"
  let ?r2 = "?r1\<lparr>players := AList.update fromId ?p2 (players ?r1)\<rparr>"
  have l1: "length (players ?r1) = length (players r)"
    using known by (simp add: update_keeps_length)
  have "map_of (players ?r1) fromId = Some ?p1" by (simp add: update_conv')
  then have "length (AList.update fromId ?p2 (players ?r1)) = length (players ?r1)"
    by (rule update_keeps_length)
  with l1 have l2: "length (players ?r2) = length (players r)" by simp
  from assms l1 have i1: "roundInv d t ?r1" by (simp add: roundInv_def)
  from assms l2 have i2: "roundInv d t ?r2" by (simp add: roundInv_def)
  obtain res h' where ev: "evaluateSolution vm code prob h = (res, h')"
    by (cases "evaluateSolution vm code prob h") auto
  show ?thesis
  proof (cases res)
    case (Inl msg)
    with known prob act ev have "fst (handleSubmit opn now vm h r fromId code) = ?r2"
      by (simp add: handleSubmit_def Let_def)
    with i2 show ?thesis by simp
  next
    case (Inr ok)
    show ?thesis
    proof (cases ok)
      case True
      with Inr known prob act ev
      have "fst (handleSubmit opn now vm h r fromId code)
            = fst (finish opn now (Some (team ?p1)) ?r1)"
        by (simp add: handleSubmit_def Let_def split: prod.splits)
      with roundInv_finish [OF i1] show ?thesis by simp
    next
      case False
      with Inr known prob act ev have "fst (handleSubmit opn now vm h r fromId code) = ?r2"
        by (simp add: handleSubmit_def Let_def)
      with i2 show ?thesis by simp
    qed
  qed
qed

lemma roundInv_applyOp:
  assumes "filter (\<lambda>p. Problem.difficulty p = d \<and> Problem.topic p = t) problems \<noteq> []"
    and "roundInv d t (fst s)"
  shows "roundInv d t (fst (applyOp opn problems vm x s))"
proof (cases s)
  case (Pair r h)
  show ?thesis
  proof (cases x)
    case (AddPlayer p)
    show ?thesis
    proof (cases "addPlayer opn r p")
      case (Inl e)
      with Pair AddPlayer assms show ?thesis by simp
    next
      case (Inr res)
      obtain r' out where "res = (r', out)" by (cases res)
      with Inr Pair AddPlayer assms roundInv_addPlayer [of d t r opn p r' out] show ?thesis by simp
    qed
  next
    case (RemovePlayer pid)
    with Pair assms show ?thesis by (simp add: roundInv_removePlayer)
  next
    case (SetReady pid rdy rnd now)
    with Pair assms show ?thesis by (simp add: roundInv_setReady)
  next
    case (Tick now)
    with Pair assms show ?thesis by (simp add: roundInv_tick)
  next
    case (HandleSubmit fromId code now)
    with Pair assms roundInv_handleSubmit [of d t r opn now vm h fromId code]
    show ?thesis by (simp add: case_prod_unfold)
  next
    case RematchOp
    with Pair assms show ?thesis by (simp add: roundInv_rematch)
  qed
qed

lemma room_invariants_nonempty_pool:
  assumes "filter (\<lambda>p. Problem.difficulty p = d \<and> Problem.topic p = t) problems \<noteq> []"
    and "roundInv d t (fst s)"
  shows "roundInv d t (fst (runOps opn problems vm ops s))"
  using assms(2)
proof (induction ops arbitrary: s)
  case Nil
  then show ?case by simp
next
  case (Cons x ops)
  have "roundInv d t (fst (applyOp opn problems vm x s))"
    using assms(1) Cons.prems by (rule roundInv_applyOp)
  then have "roundInv d t (fst (runOps opn problems vm ops (applyOp opn problems vm x s)))"
    by (rule Cons.IH)
  then show ?case by simp
qed

lemma roundInv_newRoom: "roundInv d t (newRoom rid d t)"
  by (simp add: roundInv_def newRoom_def)

lemma invariants_when_category_has_problem:
  assumes "filter (\<lambda>p. Problem.difficulty p = d \<and> Problem.topic p = t) problems \<noteq> []"
    and "r = fst (runOps opn problems vm ops (newRoom rid d t, h))"
  shows "length (players r) \<le> 4 \<and> (started r \<longrightarrow> problem r \<noteq> None \<and> endAt r \<noteq> None)"
proof -
  have "roundInv d t (fst (newRoom rid d t, h))"
    by (simp add: roundInv_newRoom)
  with assms(1) have "roundInv d t (fst (runOps opn problems vm ops (newRoom rid d t, h)))"
    by (rule room_invariants_nonempty_pool)
  with assms(2) show ?thesis
    by (simp add: roundInv_def)
qed

text \<open>
  Claim C1: if the problem source has no problem for the room's category when the start
  condition fires, the failure is sent to the room's sessions as an error message and no
  exception escapes the coordinator. The code does neither. In the Easy/Trees room \<open>ABCD\<close>,
  for which \<^verbatim>\<open>seedProblems\<close> has no problem, the fourth player reports ready: the handler sends
  the four room-state messages of \<^verbatim>\<open>setReady\<close> and no error message, and the rejection of
  \<^verbatim>\<open>start\<close> with \<^verbatim>\<open>No problems in this category.\<close> is unhandled.
\<close>

theorem start_empty_pool_unreported:
  "(case onMessage allOpen seedProblems (tableVm [] :: (unit, unit) Vm) 0 1000 ''u'' 4
           [''ABCD'' \<mapsto> lobby Easy Trees]
           \<lparr>currentRoom = Some ''ABCD'', selfId = Some ''p4''\<rparr> ()
           (Some (Ready True)) of
      (rooms', sess', out, h', rej) \<Rightarrow>
        rej = Some ''No problems in this category.''
        \<and> filter (\<lambda>(s, m). case m of Error e \<Rightarrow> True | _ \<Rightarrow> False) out = []
        \<and> map fst out = [1, 2, 3, 4])"
  by (simp add: onMessage_def lobby_eq room_defs allOpen_def getRandomProblem_Easy_Trees)

text \<open>
  Claim C2: after every sequence of operations the room has at most four players, and a
  started room has a problem and a deadline. The second part fails after the same run: four
  joins to the Easy/Trees room and four ready messages leave a room with \<open>started\<close> set and
  neither a problem nor a deadline.
\<close>

theorem empty_pool_breaks_started_invariant:
  "(let r = fst (runOps allOpen seedProblems (tableVm [] :: (unit, unit) Vm)
                   (fourJoins @ threeReady @ [SetReady ''p4'' True 0 1000])
                   (newRoom ''ABCD'' Easy Trees, ()))
    in length (players r) = 4 \<and> started r \<and> problem r = None \<and> endAt r = None)"
  by (simp add: fourJoins_def threeReady_def newPlayer_def sanitize_samples
      room_defs allOpen_def getRandomProblem_Easy_Trees)

text \<open>
  Claim C5: the round starts exactly when, after a readiness change, the room is not started,
  has four players and all are ready, and on starting the deadline is set to the current time
  plus 1200 seconds. In the Easy/Trees room the start condition holds once the fourth player
  is ready and \<^verbatim>\<open>start\<close> runs, at time 1000: the room is started, no round-start message is
  sent, and the deadline stays unset instead of becoming 1201000.
\<close>

theorem start_empty_pool_sets_no_deadline:
  "(case setReady allOpen seedProblems 0 1000 (lobby Easy Trees) ''p4'' True of
      (r', out, rej) \<Rightarrow>
        started r' \<and> length (players r') = 4 \<and> list_all (\<lambda>(k, p). ready p) (players r')
        \<and> endAt r' = None \<and> endAt r' \<noteq> Some (1000 + GAME_SECONDS * 1000)
        \<and> filter (\<lambda>(s, m). case m of Game_start p e b \<Rightarrow> True | _ \<Rightarrow> False) out = [])"
  by (simp add: lobby_eq room_defs allOpen_def getRandomProblem_Easy_Trees)

section \<open>Rematch\<close>

lemma rematch_players:
  "map (\<lambda>(k, p). (k, playerId p, name p, team p, ws p))
       (map (\<lambda>(k, p). (k, p\<lparr>ready := False, attempts := 0, errors := 0\<rparr>)) ps)
   = map (\<lambda>(k, p). (k, playerId p, name p, team p, ws p)) ps"
  by (induction ps) auto

lemma rematch_counters:
  "list_all (\<lambda>(k, p). \<not> ready p \<and> attempts p = 0 \<and> errors p = 0)
     (map (\<lambda>(k, p). (k, p\<lparr>ready := False, attempts := 0, errors := 0\<rparr>)) ps)"
  by (induction ps) auto

lemma rematch_ws:
  "(\<lambda>(k, p). ws p) \<circ> (\<lambda>(k, p). (k, p\<lparr>ready := False, attempts := 0, errors := 0\<rparr>))
   = (\<lambda>(k, p). ws p)"
  by (auto simp: fun_eq_iff)

text \<open>
  Claim C8: \<^verbatim>\<open>rematch\<close>, called in any state, keeps every player with its key, identifier,
  name, team and socket, sets every player's readiness to false and attempt and error
  counters to 0, clears \<open>started\<close>, \<open>winner\<close>, \<open>problem\<close> and \<open>endAt\<close>, removes the timer, and
  sends one room-state message to each player with an open socket and nothing else. Called
  on an active room this ends the round with no winner and no round-end message.
\<close>

theorem rematch_resets_room:
  "rematch opn r = (r', out) \<Longrightarrow>
     map (\<lambda>(k, p). (k, playerId p, name p, team p, ws p)) (players r')
       = map (\<lambda>(k, p). (k, playerId p, name p, team p, ws p)) (players r)
   \<and> list_all (\<lambda>(k, p). \<not> ready p \<and> attempts p = 0 \<and> errors p = 0) (players r')
   \<and> \<not> started r' \<and> winner r' = None \<and> problem r' = None \<and> endAt r' = None \<and> \<not> timer r'
   \<and> roomId r' = roomId r \<and> difficulty r' = difficulty r \<and> topic r' = topic r
   \<and> out = map (\<lambda>s. (s, Room_state (serializeRoom r') None)) (recipients opn r)"
  by (auto simp: rematch_def Let_def stopTimer_def rematch_players rematch_counters
      broadcastState_def broadcast_recipients recipients_def rematch_ws)

theorem rematch_resets_room_witness:
  "started activeRoom
   \<and> map (\<lambda>(k, p). (k, playerId p, name p, team p, ws p))
         (players (fst (rematch allOpen activeRoom)))
       = [(''p1'', ''p1'', ''Ann'', A, 1), (''p2'', ''p2'', ''Bob'', B, 2),
          (''p3'', ''p3'', ''Cy'', A, 3), (''p4'', ''p4'', ''Di'', B, 4)]
   \<and> list_all (\<lambda>(k, p). \<not> ready p \<and> attempts p = 0 \<and> errors p = 0)
         (players (fst (rematch allOpen activeRoom)))
   \<and> \<not> started (fst (rematch allOpen activeRoom))
   \<and> winner (fst (rematch allOpen activeRoom)) = None
   \<and> map fst (snd (rematch allOpen activeRoom)) = [1, 2, 3, 4]"
proof -
  have run: "rematch allOpen activeRoom
             = (fst (rematch allOpen activeRoom), snd (rematch allOpen activeRoom))"
    by simp
  have sockets: "recipients allOpen activeRoom = [1, 2, 3, 4]"
    by (simp add: activeRoom_eq recipients_def allOpen_def)
  have before: "started activeRoom"
    "map (\<lambda>(k, p). (k, playerId p, name p, team p, ws p)) (players activeRoom)
       = [(''p1'', ''p1'', ''Ann'', A, 1), (''p2'', ''p2'', ''Bob'', B, 2),
          (''p3'', ''p3'', ''Cy'', A, 3), (''p4'', ''p4'', ''Di'', B, 4)]"
    by (simp_all add: activeRoom_eq)
  from rematch_resets_room [OF run] sockets before show ?thesis
    by (simp add: comp_def)
qed

section \<open>Joining twice\<close>

text \<open>
  Claim C9, as amended: a join message on a connection that already has a room is ignored.
  Nothing is sent to any session, so no error is reported, and the registry with every room
  in it, the connection's variables and the host state are unchanged.
\<close>

theorem join_while_joined_ignored:
  "currentRoom sess = Some cur \<Longrightarrow>
   onMessage opn problems vm rnd now uuid socket rooms sess h (Some (Join_room rid nm d t))
     = (rooms, sess, [], h, None)"
  by (simp add: onMessage_def)

theorem join_while_joined_ignored_witness:
  "currentRoom \<lparr>currentRoom = Some ''ABCD'', selfId = Some ''p4''\<rparr> = Some ''ABCD''
   \<and> onMessage allOpen seedProblems (tableVm [] :: (unit, unit) Vm) 0 2000 ''u5'' 4
         [''ABCD'' \<mapsto> activeRoom] \<lparr>currentRoom = Some ''ABCD'', selfId = Some ''p4''\<rparr> ()
         (Some (Join_room ''wxyz'' ''Di'' None None))
       = ([''ABCD'' \<mapsto> activeRoom], \<lparr>currentRoom = Some ''ABCD'', selfId = Some ''p4''\<rparr>,
          [], (), None)"
  using join_while_joined_ignored
    [of "\<lparr>currentRoom = Some ''ABCD'', selfId = Some ''p4''\<rparr>" "''ABCD''" allOpen
      seedProblems "tableVm []" 0 2000 "''u5''" 4 "[''ABCD'' \<mapsto> activeRoom]" "()"
      "''wxyz''" "''Di''" None None]
  by simp

text \<open>
  Claim C9, as stated, asks for an error reported to the offending session. The fourth
  player of the sample room sends a second join message: nothing at all is sent.
\<close>

theorem join_while_joined_sends_nothing:
  "fst (snd (snd (onMessage allOpen seedProblems (tableVm [] :: (unit, unit) Vm) 0 2000 ''u5'' 4
         [''ABCD'' \<mapsto> activeRoom] \<lparr>currentRoom = Some ''ABCD'', selfId = Some ''p4''\<rparr> ()
         (Some (Join_room ''wxyz'' ''Di'' None None))))) = []"
  by (simp add: onMessage_def)

section \<open>Execution harness\<close>

lemma runTests_append:
  "runTests vm fn ts1 c h = (Inr True, c1, h1) \<Longrightarrow>
   runTests vm fn (ts1 @ ts) c h = runTests vm fn ts c1 h1"
proof (induction ts1 arbitrary: c h)
  case Nil
  then show ?case by simp
next
  case (Cons t ts1)
  then show ?case
    by (auto split: sum.splits prod.splits if_splits)
qed

lemma wrapped_neq_callScript [simp]:
  "wrapped code fn \<noteq> callScript fn' a" "callScript fn' a \<noteq> wrapped code fn"
  by (simp_all add: wrapped_def callScript_def)

lemma wrapped_neq_paren [simp]:
  "wrapped code fn \<noteq> CHR ''('' # rest" "CHR ''('' # rest \<noteq> wrapped code fn"
  by (simp_all add: wrapped_def)

lemma callScript_inject [simp]:
  "callScript fn a = callScript fn b \<longleftrightarrow> a = b"
  by (simp add: callScript_def)

lemma twoSum_fields:
  "functionName seed_twoSum = ''twoSum''"
  "tests seed_twoSum =
     [\<lparr>args = Arr [Arr [Num 2, Num 7, Num 11, Num 15], Num 9], expected = Arr [Num 0, Num 1]\<rparr>,
      \<lparr>args = Arr [Arr [Num 3, Num 2, Num 4], Num 6], expected = Arr [Num 1, Num 2]\<rparr>,
      \<lparr>args = Arr [Arr [Num 3, Num 3], Num 6], expected = Arr [Num 0, Num 1]\<rparr>]"
  by (simp_all add: seed_twoSum_def)

lemma evaluate_boilerplate:
  "evaluateSolution (tableVm twoSumTable) (boilerplate seed_twoSum) seed_twoSum h = (Inr True, h)"
  by (simp add: evaluateSolution_def tableVm_def twoSumTable_def twoSum_fields isFunction_def
      deepEqual_def interpolate_def)

lemma evaluate_constant:
  "evaluateSolution (tableVm constantTable) constantCode seed_twoSum h = (Inr False, h)"
  by (simp add: evaluateSolution_def tableVm_def constantTable_def twoSum_fields isFunction_def
      deepEqual_def interpolate_def)

lemma evaluate_other:
  "evaluateSolution (tableVm otherTable) otherCode seed_twoSum h
     = (Inl ''Function twoSum not found'', h)"
  by (simp add: evaluateSolution_def tableVm_def otherTable_def twoSum_fields isFunction_def)

text \<open>A test vector that passes hands the context and host state it leaves to the next one.\<close>

lemma runTests_passes_context:
  assumes "stringify vm h (args t) = Inr s"
    and "runInContext vm (callScript fn (interpolate s)) c h = (Inr out, c', h')"
    and "deepEqual vm h' out (expected t) = Inr True"
  shows "runTests vm fn (t # ts) c h = runTests vm fn ts c' h'"
  using assms by simp

lemma isAnagram_fields:
  "functionName seed_isAnagram = ''isAnagram''"
  "tests seed_isAnagram =
     [\<lparr>args = Arr [Str ''anagram'', Str ''nagaram''], expected = Bool True\<rparr>,
      \<lparr>args = Arr [Str ''rat'', Str ''car''], expected = Bool False\<rparr>]"
  by (simp_all add: seed_isAnagram_def)

text \<open>
  Claim C10: within one evaluation all test vectors run in the one context created for that
  call, so state left by one call is seen by the next; across evaluations the context is new.
  The counting submission returns \<open>[0, 1]\<close>, then \<open>[1, 2]\<close>, then \<open>[0, 1]\<close>: it passes the
  three vectors of the seeded sum-indices problem, it fails the second vector when that
  vector is evaluated alone in a new context, and it passes again when the whole evaluation
  is repeated.
\<close>

theorem context_shared_between_tests:
  "evaluateSolution countingVm countingCode seed_twoSum h = (Inr True, h)
   \<and> evaluateSolution countingVm countingCode
         (seed_twoSum\<lparr>tests := [tests seed_twoSum ! 1]\<rparr>) h = (Inr False, h)
   \<and> evaluateSolution countingVm countingCode seed_twoSum
         (snd (evaluateSolution countingVm countingCode seed_twoSum h)) = (Inr True, h)"
  by (simp add: evaluateSolution_def countingVm_def twoSum_fields isFunction_def deepEqual_def
      interpolate_def callScript_def)

lemma vectorsMatch_runTests:
  "vectorsMatch vm fn ts c h c' h' \<Longrightarrow> runTests vm fn ts c h = (Inr True, c', h')"
proof (induction ts arbitrary: c h)
  case Nil
  then show ?case by simp
next
  case (Cons t ts)
  then show ?case by (auto simp add: deepEqual_def)
qed

lemma runTests_judged:
  assumes "stringify vm h (args t) = Inr s"
    and "runInContext vm (callScript fn (interpolate s)) c h = (Inr out, c', h')"
    and "stringify vm h' out = Inr so"
    and "stringify vm h' (expected t) = Inr se"
  shows "runTests vm fn (t # ts) c h
           = (if so = se then runTests vm fn ts c' h' else (Inr False, c', h'))"
  using assms by (simp add: deepEqual_def)

text \<open>
  Claim C7: a test vector is judged through the serialized forms of the value its call
  completes with and of its expected value, and the loop goes on exactly when the two texts
  are identical. Let the vectors \<open>pre\<close> all match when called in order from the context \<open>cl\<close>
  and host state \<open>hl\<close>, and let the call of the next vector \<open>t\<close> complete with a value that
  serializes as \<open>so\<close>, where the expected value serializes as \<open>se\<close>. Then the loop over
  \<open>pre\<close> and \<open>t\<close> returns the boolean \<open>so = se\<close>; and when the texts differ, the loop over
  \<open>pre\<close>, \<open>t\<close> and any later vectors \<open>post\<close> returns false with the context and the host
  state that the call of \<open>t\<close> left, so no vector of \<open>post\<close> is called, and
  \<open>evaluateSolution\<close> returns false for every submission that loads as a function into
  \<open>cl\<close> and \<open>hl\<close>. (\<^verbatim>\<open>handleSubmit\<close> attaches the text \<^verbatim>\<open>Wrong answer\<close> to the returned false.)
\<close>

theorem first_mismatch_is_wrong_answer:
  assumes "vectorsMatch vm fn pre cl hl cp hp"
    and "stringify vm hp (args t) = Inr s"
    and "runInContext vm (callScript fn (interpolate s)) cp hp = (Inr out, ct, ht)"
    and "stringify vm ht out = Inr so"
    and "stringify vm ht (expected t) = Inr se"
  shows "runTests vm fn (pre @ [t]) cl hl = (Inr (so = se), ct, ht)
         \<and> (so \<noteq> se \<longrightarrow>
              runTests vm fn (pre @ t # post) cl hl = (Inr False, ct, ht)
              \<and> (\<forall>code prob h f.
                    runInContext vm (wrapped code (functionName prob))
                        (createContext vm contextGlobals) h = (Inr f, cl, hl)
                    \<and> isFunction f \<and> functionName prob = fn \<and> tests prob = pre @ t # post
                    \<longrightarrow> evaluateSolution vm code prob h = (Inr False, ht)))"
proof -
  have pre: "runTests vm fn pre cl hl = (Inr True, cp, hp)"
    using assms(1) by (rule vectorsMatch_runTests)
  have step: "runTests vm fn (t # ts) cp hp
                = (if so = se then runTests vm fn ts ct ht else (Inr False, ct, ht))" for ts
    using assms(2-5) by (rule runTests_judged)
  have one: "runTests vm fn (pre @ [t]) cl hl = (Inr (so = se), ct, ht)"
    using runTests_append [OF pre, of "[t]"] step [of "[]"] by simp
  have three: "runTests vm fn (pre @ t # post) cl hl = (Inr False, ct, ht)" if "so \<noteq> se"
    using runTests_append [OF pre, of "t # post"] step [of post] that by simp
  have four: "evaluateSolution vm code prob h = (Inr False, ht)"
    if "so \<noteq> se"
      "runInContext vm (wrapped code (functionName prob)) (createContext vm contextGlobals) h
         = (Inr f, cl, hl)"
      "isFunction f" "functionName prob = fn" "tests prob = pre @ t # post" for code prob h f
    using that three by (simp add: evaluateSolution_def)
  from one three four show ?thesis by blast
qed

text \<open>
  The tallying submission returns \<open>[0, 1]\<close> on every call: the first vector of the seeded
  sum-indices problem matches, the second does not, and the evaluation ends after two calls;
  the first and third vectors alone both match.
\<close>

lemma tally_match:
  "vectorsMatch (tallyVm :: (nat, unit) Vm) ''twoSum'' [tests seed_twoSum ! 0] 0 () 1 ()"
  by (simp add: tallyVm_def twoSum_fields interpolate_def callScript_def)

theorem first_mismatch_is_wrong_answer_witness:
  "vectorsMatch (tallyVm :: (nat, unit) Vm) ''twoSum'' [tests seed_twoSum ! 0] 0 () 1 ()
   \<and> runTests (tallyVm :: (nat, unit) Vm) ''twoSum'' [tests seed_twoSum ! 0] 0 ()
       = (Inr True, 1, ())
   \<and> runTests (tallyVm :: (nat, unit) Vm) ''twoSum'' (tests seed_twoSum) 0 ()
       = (Inr False, 2, ())
   \<and> evaluateSolution (tallyVm :: (nat, unit) Vm) tallyCode seed_twoSum () = (Inr False, ())
   \<and> runTests (tallyVm :: (nat, unit) Vm) ''twoSum''
         [tests seed_twoSum ! 0, tests seed_twoSum ! 2] 0 ()
       = (Inr True, 2, ())"
proof -
  let ?vm = "tallyVm :: (nat, unit) Vm"
  let ?t1 = "tests seed_twoSum ! 0"
  let ?t2 = "tests seed_twoSum ! 1"
  let ?t3 = "tests seed_twoSum ! 2"
  have split: "tests seed_twoSum = [?t1] @ ?t2 # [?t3]"
    by (simp add: twoSum_fields)
  have m1: "vectorsMatch ?vm ''twoSum'' [?t1] 0 () 1 ()"
    by (rule tally_match)
  have m0: "vectorsMatch ?vm ''twoSum'' [] 0 () 0 ()"
    by simp
  have a1: "stringify ?vm () (args ?t1) = Inr (Some ''[[2,7,11,15],9]'')"
    and r1: "runInContext ?vm (callScript ''twoSum'' (interpolate (Some ''[[2,7,11,15],9]''))) 0 ()
              = (Inr (Arr [Num 0, Num 1]), 1, ())"
    and e1: "stringify ?vm () (expected ?t1) = Inr (Some ''[0,1]'')"
    and a2: "stringify ?vm () (args ?t2) = Inr (Some ''[[3,2,4],6]'')"
    and r2: "runInContext ?vm (callScript ''twoSum'' (interpolate (Some ''[[3,2,4],6]''))) 1 ()
              = (Inr (Arr [Num 0, Num 1]), 2, ())"
    and o2: "stringify ?vm () (Arr [Num 0, Num 1]) = Inr (Some ''[0,1]'')"
    and e2: "stringify ?vm () (expected ?t2) = Inr (Some ''[1,2]'')"
    and a3: "stringify ?vm () (args ?t3) = Inr (Some ''[[3,3],6]'')"
    and r3: "runInContext ?vm (callScript ''twoSum'' (interpolate (Some ''[[3,3],6]''))) 1 ()
              = (Inr (Arr [Num 0, Num 1]), 2, ())"
    and e3: "stringify ?vm () (expected ?t3) = Inr (Some ''[0,1]'')"
    by (simp_all add: tallyVm_def twoSum_fields interpolate_def callScript_def)
  have ne: "Some ''[0,1]'' \<noteq> Some ''[1,2]''"
    by simp
  have "runTests ?vm ''twoSum'' ([] @ [?t1]) 0 () = (Inr (Some ''[0,1]'' = Some ''[0,1]''), 1, ())"
    using first_mismatch_is_wrong_answer [OF m0 a1 r1 o2 e1, of "[]"] by (rule conjunct1)
  then have c2: "runTests ?vm ''twoSum'' [?t1] 0 () = (Inr True, 1, ())"
    by (simp only: append_Nil simp_thms)
  note second = first_mismatch_is_wrong_answer [OF m1 a2 r2 o2 e2, of "[?t3]"]
  from second ne have "runTests ?vm ''twoSum'' ([?t1] @ ?t2 # [?t3]) 0 () = (Inr False, 2, ())"
    by blast
  then have c3: "runTests ?vm ''twoSum'' (tests seed_twoSum) 0 () = (Inr False, 2, ())"
    by (subst split)
  from second ne have ev: "evaluateSolution ?vm code prob h = (Inr False, ())"
    if "runInContext ?vm (wrapped code (functionName prob)) (createContext ?vm contextGlobals) h
          = (Inr f, 0, ())
        \<and> isFunction f \<and> functionName prob = ''twoSum'' \<and> tests prob = [?t1] @ ?t2 # [?t3]"
    for code prob h f
    using that by blast
  have c4: "evaluateSolution ?vm tallyCode seed_twoSum () = (Inr False, ())"
    by (rule ev [of tallyCode seed_twoSum "()" "Function ''twoSum''"])
      (simp add: tallyVm_def twoSum_fields isFunction_def)
  have "runTests ?vm ''twoSum'' ([?t1] @ [?t3]) 0 () = (Inr (Some ''[0,1]'' = Some ''[0,1]''), 2, ())"
    using first_mismatch_is_wrong_answer [OF m1 a3 r3 o2 e3, of "[]"] by (rule conjunct1)
  then have c5: "runTests ?vm ''twoSum'' [?t1, ?t3] 0 () = (Inr True, 2, ())"
    by (simp only: append_Cons append_Nil simp_thms)
  from m1 c2 c3 c4 c5 show ?thesis by blast
qed

text \<open>
  What a submission that does not depend on the host provides, and what it gives the loop
  over the test vectors: the same outcome in any two host states of \<open>H\<close>, and a host state
  of \<open>H\<close> afterwards.
\<close>

lemma sameRunE:
  assumes "sameRun vm C H script c h h'"
  obtains res c1 h1 h1' where "runInContext vm script c h = (res, c1, h1)"
    and "runInContext vm script c h' = (res, c1, h1')" and "c1 \<in> C" and "h1 \<in> H" and "h1' \<in> H"
  using assms by (auto simp add: sameRun_def split: prod.splits)

lemma hostIndependent_context:
  "hostIndependent vm code prob C H \<Longrightarrow> createContext vm contextGlobals \<in> C"
  unfolding hostIndependent_def by (rule conjunct1)

lemma hostIndependent_stringify:
  assumes "hostIndependent vm code prob C H" and "t \<in> set (tests prob)"
    and "h \<in> H" and "h' \<in> H"
  shows "stringify vm h (args t) = stringify vm h' (args t)"
    and "stringify vm h (expected t) = stringify vm h' (expected t)"
  using assms unfolding hostIndependent_def by blast+

lemma hostIndependent_load:
  assumes "hostIndependent vm code prob C H" and "c \<in> C" and "h \<in> H" and "h' \<in> H"
  shows "sameRun vm C H (wrapped code (functionName prob)) c h h'"
  using assms unfolding hostIndependent_def by blast

lemma hostIndependent_call:
  assumes "hostIndependent vm code prob C H" and "t \<in> set (tests prob)"
    and "c \<in> C" and "h \<in> H" and "h' \<in> H" and "stringify vm h (args t) = Inr s"
  shows "sameRun vm C H (callScript (functionName prob) (interpolate s)) c h h'"
  using assms unfolding hostIndependent_def by blast

lemma hostIndependent_out:
  assumes "hostIndependent vm code prob C H" and "t \<in> set (tests prob)"
    and "c \<in> C" and "h \<in> H" and "h' \<in> H" and "stringify vm h (args t) = Inr s"
    and "runInContext vm (callScript (functionName prob) (interpolate s)) c h = (Inr out, c1, h1)"
    and "runInContext vm (callScript (functionName prob) (interpolate s)) c h' = (Inr out, c1, h1')"
  shows "stringify vm h1 out = stringify vm h1' out"
  using assms unfolding hostIndependent_def by blast

lemma hostIndependent_runTests:
  assumes hi: "hostIndependent vm code prob C H"
  shows "set ts \<subseteq> set (tests prob) \<Longrightarrow> c \<in> C \<Longrightarrow> h \<in> H \<Longrightarrow> h' \<in> H \<Longrightarrow>
         fst (runTests vm (functionName prob) ts c h) = fst (runTests vm (functionName prob) ts c h')
         \<and> snd (snd (runTests vm (functionName prob) ts c h)) \<in> H"
proof (induction ts arbitrary: c h h')
  case Nil
  then show ?case by simp
next
  case (Cons t ts)
  let ?fn = "functionName prob"
  from Cons.prems have t: "t \<in> set (tests prob)" and ts: "set ts \<subseteq> set (tests prob)"
    by simp_all
  from Cons.prems have inC: "c \<in> C" and inH: "h \<in> H" "h' \<in> H"
    by simp_all
  have sa: "stringify vm h' (args t) = stringify vm h (args t)"
    by (rule hostIndependent_stringify(1) [OF hi t inH(2,1)])
  show ?case
  proof (cases "stringify vm h (args t)")
    case (Inl e)
    with sa inH show ?thesis by simp
  next
    case (Inr s)
    have same: "sameRun vm C H (callScript ?fn (interpolate s)) c h h'"
      by (rule hostIndependent_call [OF hi t inC inH Inr])
    then obtain res c1 h1 h1' where
      run: "runInContext vm (callScript ?fn (interpolate s)) c h = (res, c1, h1)"
      and run': "runInContext vm (callScript ?fn (interpolate s)) c h' = (res, c1, h1')"
      and in1: "c1 \<in> C" "h1 \<in> H" "h1' \<in> H"
      by (rule sameRunE)
    show ?thesis
    proof (cases res)
      case (Inl e)
      with Inr sa run run' in1 show ?thesis by simp
    next
      case out: (Inr out)
      from run run' out
      have "stringify vm h1 out = stringify vm h1' out"
        by (intro hostIndependent_out [OF hi t inC inH Inr]) simp_all
      then have so: "stringify vm h1' out = stringify vm h1 out"
        by (rule sym)
      have se: "stringify vm h1' (expected t) = stringify vm h1 (expected t)"
        by (rule hostIndependent_stringify(2) [OF hi t in1(3,2)])
      have de: "deepEqual vm h1' out (expected t) = deepEqual vm h1 out (expected t)"
        unfolding deepEqual_def so se by (rule refl)
      from Cons.IH [OF ts in1]
      have ih: "fst (runTests vm ?fn ts c1 h1) = fst (runTests vm ?fn ts c1 h1')"
        "snd (snd (runTests vm ?fn ts c1 h1)) \<in> H"
        by simp_all
      show ?thesis
      proof (cases "deepEqual vm h1 out (expected t)")
        case (Inl e)
        with Inr sa run run' out de in1 show ?thesis by simp
      next
        case eq: (Inr eq)
        with Inr sa run run' out de in1 ih show ?thesis by simp
      qed
    qed
  qed
qed

text \<open>The engine for the seeded anagram problem, script by script.\<close>

lemma anagram_codes [simp]:
  "randomCode \<noteq> boilerplate seed_isAnagram" "patchCode \<noteq> boilerplate seed_isAnagram"
  "patchCode \<noteq> randomCode"
  by (simp_all add: randomCode_def patchCode_def seed_isAnagram_def)

lemma wrapped_inject [simp]:
  "wrapped code fn = wrapped code' fn \<longleftrightarrow> code = code'"
  by (simp add: wrapped_def)

lemma anagramVm_steps:
  "createContext anagramVm globals = 0"
  "stringify anagramVm h v = (if patched h then Inr (Some ''[]'') else Inr (sampleStringify v))"
  "runInContext anagramVm (wrapped (boilerplate seed_isAnagram) ''isAnagram'') c h
     = (Inr (Function ''isAnagram''), 1, h)"
  "runInContext anagramVm (wrapped randomCode ''isAnagram'') c h
     = (Inr (Function ''isAnagram''), 2, h)"
  "runInContext anagramVm (wrapped patchCode ''isAnagram'') c h
     = (Inr (Function ''isAnagram''), 3, h\<lparr>patched := True\<rparr>)"
  "runInContext anagramVm (callScript ''isAnagram'' a) c h
     = (if a = ''['' @ [CHR 0x22] @ ''anagram'' @ [CHR 0x22] @ '','' @ [CHR 0x22] @ ''nagaram''
                @ [CHR 0x22] @ '']''
        then anagramCall (Bool True) [] c h
        else if a = ''['' @ [CHR 0x22] @ ''rat'' @ [CHR 0x22] @ '','' @ [CHR 0x22] @ ''car''
                    @ [CHR 0x22] @ '']''
        then anagramCall (Bool False) [] c h
        else if a = ''[]''
        then anagramCall Undefined
               (''Cannot read properties of undefined (reading '' @ [CHR 0x27] @ ''length''
                @ [CHR 0x27] @ '')'') c h
        else (Inl ''SyntaxError'', c, h))"
  by (simp_all add: anagramVm_def)

lemma anagramCall_steps:
  "anagramCall v [] (Suc 0) h = (Inr v, Suc 0, h)"
  "e \<noteq> [] \<Longrightarrow> anagramCall v e (Suc 0) h = (Inl e, Suc 0, h)"
  "anagramCall v e 0 h = (Inl ''isAnagram is not defined'', 0, h)"
  "anagramCall v e 2 \<lparr>draws = b # bs, patched = p\<rparr>
     = (Inr (Bool b), 2, \<lparr>draws = bs, patched = p\<rparr>)"
  "anagramCall v e 2 \<lparr>draws = [], patched = p\<rparr>
     = (Inr (Bool False), 2, \<lparr>draws = [], patched = p\<rparr>)"
  "anagramCall v e 3 h = (Inr (Bool True), 3, h)"
  by (simp_all add: anagramCall_def draw_def)

lemma evaluate_starter:
  "\<not> patched h \<Longrightarrow>
   evaluateSolution anagramVm (boilerplate seed_isAnagram) seed_isAnagram h = (Inr True, h)"
  by (simp add: evaluateSolution_def anagramVm_steps anagramCall_steps
      isAnagram_fields isFunction_def deepEqual_def interpolate_def)

lemma evaluate_starter_patched:
  "patched h \<Longrightarrow>
   evaluateSolution anagramVm (boilerplate seed_isAnagram) seed_isAnagram h
     = (Inl (''Runtime error on test: Cannot read properties of undefined (reading ''
             @ [CHR 0x27] @ ''length'' @ [CHR 0x27] @ '')''), h)"
  by (simp add: evaluateSolution_def anagramVm_steps anagramCall_steps
      isAnagram_fields isFunction_def deepEqual_def interpolate_def)

lemma evaluate_random:
  "evaluateSolution anagramVm randomCode seed_isAnagram host0
     = (Inr True, \<lparr>draws = [False], patched = False\<rparr>)"
  "evaluateSolution anagramVm randomCode seed_isAnagram \<lparr>draws = [False], patched = False\<rparr>
     = (Inr False, \<lparr>draws = [], patched = False\<rparr>)"
  by (simp_all add: evaluateSolution_def anagramVm_steps anagramCall_steps
      isAnagram_fields isFunction_def deepEqual_def interpolate_def host0_def)

lemma evaluate_patch:
  "evaluateSolution anagramVm patchCode seed_isAnagram host0 = (Inr True, host0\<lparr>patched := True\<rparr>)"
  by (simp add: evaluateSolution_def anagramVm_steps anagramCall_steps
      isAnagram_fields isFunction_def deepEqual_def interpolate_def host0_def)

text \<open>
  Claim C3, as stated: two evaluations of the same code and problem give the same outcome,
  because the context gives no access to randomness or to the state of the host. The context
  holds the host's \<^verbatim>\<open>Math\<close> and \<^verbatim>\<open>JSON\<close>. For the submission that answers the seeded anagram
  problem with \<^verbatim>\<open>Math.random() < 0.5\<close>, with the host's generator about to draw below one
  half once and then above it, the first evaluation passes and the second, run in the host
  state the first left, fails. And the starter code of the problem, which passes in the
  host state \<open>host0\<close>, ends in a runtime error when it is evaluated again after the
  submission that replaces \<^verbatim>\<open>JSON.stringify\<close>: the harness itself builds the call scripts
  and compares the results with the replaced function.
\<close>

theorem evaluate_random_submission_differs:
  "fst (evaluateSolution anagramVm randomCode seed_isAnagram host0) = Inr True
   \<and> fst (evaluateSolution anagramVm randomCode seed_isAnagram
            (snd (evaluateSolution anagramVm randomCode seed_isAnagram host0))) = Inr False
   \<and> fst (evaluateSolution anagramVm (boilerplate seed_isAnagram) seed_isAnagram host0) = Inr True
   \<and> fst (evaluateSolution anagramVm (boilerplate seed_isAnagram) seed_isAnagram
            (snd (evaluateSolution anagramVm patchCode seed_isAnagram host0)))
       = Inl (''Runtime error on test: Cannot read properties of undefined (reading ''
              @ [CHR 0x27] @ ''length'' @ [CHR 0x27] @ '')'')"
proof -
  have "\<not> patched host0"
    by (simp add: host0_def)
  then show ?thesis
    by (simp add: evaluate_random evaluate_patch evaluate_starter evaluate_starter_patched)
qed

text \<open>
  Claim C3, as amended: every evaluation builds a new context, so a submission that does not
  depend on the host is judged alike in any two host states. The condition is on the
  submission at hand, over the contexts \<open>C\<close> and host states \<open>H\<close> that its evaluation does
  not leave: its scripts run alike in any two host states of \<open>H\<close>, and the host's serializer
  gives the same text in all of them to the values of the test vectors and to the values the
  calls complete with. Then two evaluations of the code on the problem in
  host states of \<open>H\<close> have the same outcome, the host state they leave is again in \<open>H\<close>, and
  an evaluation repeated in the host state the first one left has the same outcome.
\<close>

theorem evaluate_deterministic_without_host:
  assumes "hostIndependent vm code prob C H" and "h \<in> H" and "h' \<in> H"
  shows "fst (evaluateSolution vm code prob h) = fst (evaluateSolution vm code prob h')
         \<and> snd (evaluateSolution vm code prob h) \<in> H
         \<and> fst (evaluateSolution vm code prob (snd (evaluateSolution vm code prob h)))
             = fst (evaluateSolution vm code prob h)"
proof -
  let ?fn = "functionName prob"
  have det: "fst (evaluateSolution vm code prob k) = fst (evaluateSolution vm code prob k')
             \<and> snd (evaluateSolution vm code prob k) \<in> H"
    if k: "k \<in> H" "k' \<in> H" for k k'
  proof -
    have "sameRun vm C H (wrapped code ?fn) (createContext vm contextGlobals) k k'"
      by (rule hostIndependent_load [OF assms(1) hostIndependent_context [OF assms(1)] k])
    then obtain res c1 h1 h1' where
      run: "runInContext vm (wrapped code ?fn) (createContext vm contextGlobals) k = (res, c1, h1)"
      and run': "runInContext vm (wrapped code ?fn) (createContext vm contextGlobals) k'
                   = (res, c1, h1')"
      and in1: "c1 \<in> C" "h1 \<in> H" "h1' \<in> H"
      by (rule sameRunE)
    from hostIndependent_runTests [OF assms(1) subset_refl in1]
    have loop: "fst (runTests vm ?fn (tests prob) c1 h1) = fst (runTests vm ?fn (tests prob) c1 h1')"
      "snd (snd (runTests vm ?fn (tests prob) c1 h1)) \<in> H"
      by simp_all
    obtain r cr hr where rt: "runTests vm ?fn (tests prob) c1 h1 = (r, cr, hr)"
      by (cases "runTests vm ?fn (tests prob) c1 h1")
    obtain r' cr' hr' where rt': "runTests vm ?fn (tests prob) c1 h1' = (r', cr', hr')"
      by (cases "runTests vm ?fn (tests prob) c1 h1'")
    from loop rt rt' have eq: "r' = r" "hr \<in> H"
      by simp_all
    show ?thesis
    proof (cases res)
      case (Inl e)
      with run run' in1 show ?thesis by (simp add: evaluateSolution_def)
    next
      case (Inr f)
      with run run' in1 rt rt' eq show ?thesis
        by (simp add: evaluateSolution_def)
    qed
  qed
  from det [OF assms(2,3)] det [OF _ assms(2), of "snd (evaluateSolution vm code prob h)"]
  show ?thesis by simp
qed

text \<open>
  The starter code of the seeded anagram problem does not depend on the host, over the
  contexts 0 and 1 and the host states in which the serializer is the original: it passes in
  \<open>host0\<close> and in the different host state that the random submission leaves. The random
  submission does not meet the condition.
\<close>

lemma starter_hostIndependent:
  "hostIndependent anagramVm (boilerplate seed_isAnagram) seed_isAnagram {0, 1} {h. \<not> patched h}"
  unfolding hostIndependent_def sameRun_def
  by (auto simp add: anagramVm_steps anagramCall_steps isAnagram_fields interpolate_def)

theorem evaluate_deterministic_without_host_witness:
  "hostIndependent anagramVm (boilerplate seed_isAnagram) seed_isAnagram {0, 1} {h. \<not> patched h}
   \<and> host0 \<in> {h. \<not> patched h}
   \<and> snd (evaluateSolution anagramVm randomCode seed_isAnagram host0) \<in> {h. \<not> patched h}
   \<and> snd (evaluateSolution anagramVm randomCode seed_isAnagram host0) \<noteq> host0
   \<and> fst (evaluateSolution anagramVm (boilerplate seed_isAnagram) seed_isAnagram host0)
       = fst (evaluateSolution anagramVm (boilerplate seed_isAnagram) seed_isAnagram
                (snd (evaluateSolution anagramVm randomCode seed_isAnagram host0)))
   \<and> fst (evaluateSolution anagramVm (boilerplate seed_isAnagram) seed_isAnagram host0) = Inr True
   \<and> \<not> hostIndependent anagramVm randomCode seed_isAnagram UNIV UNIV"
proof -
  let ?H = "{h. \<not> patched h}"
  let ?h2 = "snd (evaluateSolution anagramVm randomCode seed_isAnagram host0)"
  have a: "host0 \<in> ?H" by (simp add: host0_def)
  have b: "?h2 \<in> ?H" by (simp add: evaluate_random)
  have "draws ?h2 = [False]"
    by (simp add: evaluate_random)
  moreover have "draws host0 = [True, False, False]"
    by (simp add: host0_def)
  ultimately have c: "?h2 \<noteq> host0" by auto
  have d: "fst (evaluateSolution anagramVm (boilerplate seed_isAnagram) seed_isAnagram host0)
             = fst (evaluateSolution anagramVm (boilerplate seed_isAnagram) seed_isAnagram ?h2)"
    using evaluate_deterministic_without_host [OF starter_hostIndependent a b]
    by (rule conjunct1)
  have e: "fst (evaluateSolution anagramVm (boilerplate seed_isAnagram) seed_isAnagram host0)
             = Inr True"
    by (rule arg_cong [where f = fst, OF evaluate_starter, simplified]) (simp add: host0_def)
  have f: "\<not> hostIndependent anagramVm randomCode seed_isAnagram UNIV UNIV"
  proof
    assume "hostIndependent anagramVm randomCode seed_isAnagram UNIV UNIV"
    from evaluate_deterministic_without_host [OF this UNIV_I UNIV_I, of host0 host0]
    show False by (simp add: evaluate_random)
  qed
  from starter_hostIndependent a b c d e f show ?thesis by blast
qed

section \<open>Submissions\<close>

lemma update_keeps_keys:
  "map_of ps k = Some p \<Longrightarrow> map fst (AList.update k p' ps) = map fst ps"
  by (induction ps) (auto split: if_splits)

lemma update_keeps_sockets:
  "map_of ps k = Some p \<Longrightarrow> ws p' = ws p \<Longrightarrow>
   map (\<lambda>(k, p). ws p) (AList.update k p' ps) = map (\<lambda>(k, p). ws p) ps"
  by (induction ps) (auto split: if_splits)

lemma recipients_update:
  "map_of (players r) k = Some p \<Longrightarrow> ws p' = ws p \<Longrightarrow>
   recipients opn (r\<lparr>players := AList.update k p' (players r)\<rparr>) = recipients opn r"
  by (simp add: recipients_def update_keeps_sockets)

lemma recipients_fields [simp]:
  "recipients opn (r\<lparr>started := s\<rparr>) = recipients opn r"
  "recipients opn (r\<lparr>winner := w\<rparr>) = recipients opn r"
  "recipients opn (r\<lparr>timer := t\<rparr>) = recipients opn r"
  by (simp_all add: recipients_def)

lemma handleSubmit_fail:
  assumes "map_of (players r) fromId = Some p" "problem r = Some prob" "started r"
    and "evaluateSolution vm code prob h = (res, h')"
    and "res = Inr False \<and> text = ''Wrong answer'' \<or> (\<exists>msg. res = Inl msg \<and> text = orElse msg ''Runtime error'')"
  shows "\<exists>r' out. handleSubmit opn now vm h r fromId code = (r', out, h') \<and> rejected opn r fromId p text r' out"
  using assms
  by (auto simp: handleSubmit_def Let_def rejected_def update_conv' update_keeps_keys
      broadcastState_def broadcast_recipients recipients_update fun_upd_def)

lemma handleSubmit_pass:
  assumes "map_of (players r) fromId = Some p" "problem r = Some prob" "started r"
    and "evaluateSolution vm code prob h = (Inr True, h')"
  shows "\<exists>r' out. handleSubmit opn now vm h r fromId code = (r', out, h') \<and> accepted opn r fromId p r' out"
  using assms
  by (auto simp: handleSubmit_def Let_def accepted_def update_conv' update_keeps_keys finish_def stopTimer_def
      broadcastState_def broadcast_recipients recipients_update)

text \<open>
  A submission in a frame that is the last of its chunk, so that no other handler runs
  between the two halves of \<^verbatim>\<open>handleSubmit\<close>: it changes nothing and sends nothing if the
  sender is unknown, the room has no problem or the round is not started. Otherwise the
  sender's attempt counter is incremented and the submission is judged. If it passes, an ok
  result goes to every open socket of the room and the round ends with the sender's team as
  winner. If it is judged wrong or the harness throws, the sender's error counter is
  incremented, a not-ok result with the diagnostic text goes to the sender's socket only, the
  room state is broadcast, and the round stays started.
\<close>

theorem handleSubmit_outcomes:
  "(map_of (players r) fromId = None \<or> problem r = None \<or> \<not> started r
      \<longrightarrow> handleSubmit opn now vm h r fromId code = (r, [], h))
   \<and> (map_of (players r) fromId = Some p \<and> problem r = Some prob \<and> started r
      \<longrightarrow> (\<exists>r' out.
            handleSubmit opn now vm h r fromId code = (r', out, snd (evaluateSolution vm code prob h))
            \<and> (case fst (evaluateSolution vm code prob h) of
                  Inr ok \<Rightarrow> if ok then accepted opn r fromId p r' out
                            else rejected opn r fromId p ''Wrong answer'' r' out
                | Inl msg \<Rightarrow> rejected opn r fromId p (orElse msg ''Runtime error'') r' out)))"
proof (intro conjI impI)
  assume "map_of (players r) fromId = None \<or> problem r = None \<or> \<not> started r"
  then show "handleSubmit opn now vm h r fromId code = (r, [], h)"
    by (auto simp: handleSubmit_def split: option.splits)
next
  assume a: "map_of (players r) fromId = Some p \<and> problem r = Some prob \<and> started r"
  obtain res h' where ev: "evaluateSolution vm code prob h = (res, h')"
    by (cases "evaluateSolution vm code prob h") auto
  show "\<exists>r' out.
            handleSubmit opn now vm h r fromId code = (r', out, snd (evaluateSolution vm code prob h))
            \<and> (case fst (evaluateSolution vm code prob h) of
                  Inr ok \<Rightarrow> if ok then accepted opn r fromId p r' out
                            else rejected opn r fromId p ''Wrong answer'' r' out
                | Inl msg \<Rightarrow> rejected opn r fromId p (orElse msg ''Runtime error'') r' out)"
  proof (cases res)
    case (Inl msg)
    with a ev handleSubmit_fail [of r fromId p prob vm code h res h' "orElse msg ''Runtime error''" opn now]
    show ?thesis by auto
  next
    case (Inr ok)
    show ?thesis
    proof (cases ok)
      case True
      with Inr a ev handleSubmit_pass [of r fromId p prob vm code h h' opn now]
      show ?thesis by auto
    next
      case False
      with Inr a ev handleSubmit_fail [of r fromId p prob vm code h res h' "''Wrong answer''" opn now]
      show ?thesis by auto
    qed
  qed
qed

theorem handleSubmit_outcomes_witness:
  "handleSubmit allOpen 5000 (tableVm twoSumTable :: (unit, unit) Vm) () activeRoom ''zz''
       (boilerplate seed_twoSum) = (activeRoom, [], ())
   \<and> winner (fst (handleSubmit allOpen 5000 (tableVm twoSumTable :: (unit, unit) Vm) () activeRoom
                      ''p2'' (boilerplate seed_twoSum))) = Some B
   \<and> \<not> started (fst (handleSubmit allOpen 5000 (tableVm twoSumTable :: (unit, unit) Vm) ()
                         activeRoom ''p2'' (boilerplate seed_twoSum)))
   \<and> started (fst (handleSubmit allOpen 5000 (tableVm constantTable :: (unit, unit) Vm) ()
                       activeRoom ''p2'' constantCode))
   \<and> map_of (players (fst (handleSubmit allOpen 5000 (tableVm constantTable :: (unit, unit) Vm) ()
                                activeRoom ''p2'' constantCode))) ''p2''
       = Some \<lparr>playerId = ''p2'', name = ''Bob'', team = B, ready = True, attempts = 1, errors = 1,
               ws = 2\<rparr>
   \<and> hd (fst (snd (handleSubmit allOpen 5000 (tableVm constantTable :: (unit, unit) Vm) ()
                       activeRoom ''p2'' constantCode)))
       = (2, Attempt_result False (Some ''Wrong answer''))
   \<and> hd (fst (snd (handleSubmit allOpen 5000 (tableVm otherTable :: (unit, unit) Vm) ()
                       activeRoom ''p2'' otherCode)))
       = (2, Attempt_result False (Some ''Function twoSum not found''))"
proof -
  let ?p = "\<lparr>playerId = ''p2'', name = ''Bob'', team = B, ready = True, attempts = 0, errors = 0,
             ws = 2\<rparr>"
  have room: "map_of (players activeRoom) ''zz'' = None"
    "map_of (players activeRoom) ''p2'' = Some ?p"
    "problem activeRoom = Some seed_twoSum" "started activeRoom"
    by (simp_all add: activeRoom_eq)
  note inst = handleSubmit_outcomes [where opn = allOpen and now = 5000 and h = "()" and r = activeRoom
      and p = "?p" and prob = seed_twoSum]
  have noop: "handleSubmit allOpen 5000 (tableVm twoSumTable :: (unit, unit) Vm) () activeRoom ''zz''
       (boilerplate seed_twoSum) = (activeRoom, [], ())"
    using inst [where fromId = "''zz''"] room by simp
  have pass: "\<exists>r' out. handleSubmit allOpen 5000 (tableVm twoSumTable :: (unit, unit) Vm) () activeRoom
                 ''p2'' (boilerplate seed_twoSum) = (r', out, ())
              \<and> accepted allOpen activeRoom ''p2'' ?p r' out"
    using inst [where fromId = "''p2''" and vm = "tableVm twoSumTable"
        and code = "boilerplate seed_twoSum"] room
    by (simp add: evaluate_boilerplate)
  have wrong: "\<exists>r' out. handleSubmit allOpen 5000 (tableVm constantTable :: (unit, unit) Vm) () activeRoom
                 ''p2'' constantCode = (r', out, ())
              \<and> rejected allOpen activeRoom ''p2'' ?p ''Wrong answer'' r' out"
    using inst [where fromId = "''p2''" and vm = "tableVm constantTable" and code = constantCode] room
    by (simp add: evaluate_constant)
  have err: "\<exists>r' out. handleSubmit allOpen 5000 (tableVm otherTable :: (unit, unit) Vm) () activeRoom
                 ''p2'' otherCode = (r', out, ())
              \<and> rejected allOpen activeRoom ''p2'' ?p ''Function twoSum not found'' r' out"
    using inst [where fromId = "''p2''" and vm = "tableVm otherTable" and code = otherCode] room
    by (simp add: evaluate_other orElse_def)
  from noop pass wrong err show ?thesis
    by (auto simp: accepted_def rejected_def safeSend_def allOpen_def)
qed

subsection \<open>Frames that arrive together\<close>

text \<open>
  The one-step operations are their two halves run one after the other, and a chunk of one
  frame is handled as \<open>onMessage\<close> says.
\<close>

lemma start_halves:
  "start opn problems rnd now r
     = (case start_sync problems rnd r of (r1, res) \<Rightarrow> start_cont opn now res r1)"
  by (simp add: start_def start_sync_def start_cont_def Let_def split: sum.splits)

lemma setReady_halves:
  "setReady opn problems rnd now r pid rdy
     = (case setReady_sync opn problems rnd r pid rdy of
          (r1, out, None) \<Rightarrow> (r1, out, None)
        | (r1, out, Some res) \<Rightarrow>
            (case start_cont opn now res r1 of (r2, out2, rej) \<Rightarrow> (r2, out @ out2, rej)))"
  by (simp add: setReady_def setReady_sync_def tryStart_def tryStart_sync_def start_halves Let_def
      split: option.splits prod.splits)

lemma handleSubmit_halves:
  "handleSubmit opn now vm h r fromId code
     = (case handleSubmit_sync vm h r fromId code of
          (r1, h', None) \<Rightarrow> (r1, [], h')
        | (r1, h', Some (p, res)) \<Rightarrow>
            (case handleSubmit_cont opn now fromId p res r1 of (r2, out) \<Rightarrow> (r2, out, h')))"
proof (cases "map_of (players r) fromId")
  case None
  then show ?thesis by (simp add: handleSubmit_def handleSubmit_sync_def)
next
  case (Some p)
  show ?thesis
  proof (cases "problem r")
    case None
    with Some show ?thesis by (simp add: handleSubmit_def handleSubmit_sync_def)
  next
    case prob: (Some prob)
    show ?thesis
    proof (cases "started r")
      case False
      with Some prob show ?thesis by (simp add: handleSubmit_def handleSubmit_sync_def)
    next
      case True
      let ?p1 = "p\<lparr>attempts := attempts p + 1\<rparr>"
      let ?r1 = "r\<lparr>players := AList.update fromId ?p1 (players r)\<rparr>"
      obtain res h' where ev: "evaluateSolution vm code prob h = (res, h')"
        by (cases "evaluateSolution vm code prob h")
      have sync: "handleSubmit_sync vm h r fromId code = (?r1, h', Some (?p1, res))"
        using Some prob True ev by (simp add: handleSubmit_sync_def Let_def)
      have look: "map_of (players ?r1) fromId = Some ?p1"
        by (simp add: update_conv')
      have upd: "AList.update fromId v (players ?r1) = AList.update fromId v (players r)" for v
        by (simp add: update_last)
      have failed: "submitFailed opn fromId ?p1 diag ?r1
                      = (r\<lparr>players := AList.update fromId (?p1\<lparr>errors := errors ?p1 + 1\<rparr>)
                                          (players r)\<rparr>,
                         safeSend opn (ws p) (Attempt_result False (Some diag))
                         @ broadcastState opn
                             (r\<lparr>players := AList.update fromId (?p1\<lparr>errors := errors ?p1 + 1\<rparr>)
                                                (players r)\<rparr>) None)" for diag
        unfolding submitFailed_def look by (simp add: update_last Let_def)
      have whole: "handleSubmit opn now vm h r fromId code
                     = (case handleSubmit_cont opn now fromId ?p1 res ?r1 of
                          (r2, out) \<Rightarrow> (r2, out, h'))"
      proof (cases res)
        case (Inl msg)
        then show ?thesis
          using Some prob True ev
          by (simp add: handleSubmit_def handleSubmit_cont_def failed [simplified] update_last Let_def)
      next
        case (Inr ok)
        then show ?thesis
          using Some prob True ev look
          by (cases ok)
            (simp_all add: handleSubmit_def handleSubmit_cont_def failed [simplified] update_last Let_def
              split: prod.splits)
      qed
      show ?thesis
        unfolding whole sync by simp
    qed
  qed
qed

lemma onMessage_no_rejection:
  assumes "\<And>rdy. m \<noteq> Ready rdy"
  shows "snd (snd (snd (snd (onMessage opn problems vm rnd now uuid socket rooms sess h (Some m)))))
           = None"
proof (cases m)
  case (Ready b)
  with assms show ?thesis by blast
qed (simp_all add: onMessage_def Let_def split: option.splits prod.splits sum.splits)

lemma onChunk_single:
  "onChunk opn problems vm socket [Frame data rnd uuid now] rooms sess h
     = (case onMessage opn problems vm rnd now uuid socket rooms sess h data of
          (rooms', sess', out, h', rej) \<Rightarrow>
            (rooms', sess', out, h', (case rej of None \<Rightarrow> [] | Some e \<Rightarrow> [e])))"
proof (cases data)
  case None
  then show ?thesis
    by (simp add: onChunk_def onMessage_sync_def onMessage_def)
next
  case (Some m)
  show ?thesis
  proof (cases m)
    case (Ready rdy)
    show ?thesis
    proof (cases "currentRoom sess")
      case None
      with Some Ready show ?thesis
        by (simp add: onChunk_def onMessage_sync_def onMessage_def)
    next
      case rid: (Some rid)
      show ?thesis
      proof (cases "selfId sess")
        case None
        with Some Ready rid show ?thesis
          by (simp add: onChunk_def onMessage_sync_def onMessage_def)
      next
        case pid: (Some pid)
        show ?thesis
        proof (cases "if pid = [] then None else rooms rid")
          case None
          with Some Ready rid pid show ?thesis
            by (simp add: onChunk_def onMessage_sync_def onMessage_def)
        next
          case room: (Some room)
          obtain r1 out pending where sync:
            "setReady_sync opn problems rnd room pid rdy = (r1, out, pending)"
            by (cases "setReady_sync opn problems rnd room pid rdy")
          show ?thesis
          proof (cases pending)
            case None
            with Some Ready rid pid room sync show ?thesis
              by (simp add: onChunk_def onMessage_sync_def onMessage_def setReady_halves)
          next
            case res: (Some res)
            obtain r2 out2 rej where cont: "start_cont opn now res r1 = (r2, out2, rej)"
              by (cases "start_cont opn now res r1")
            with Some Ready rid pid room sync res show ?thesis
              by (simp add: onChunk_def onMessage_sync_def onMessage_def setReady_halves
                  settle_def)
          qed
        qed
      qed
    qed
  next
    case (Submit_solution code)
    show ?thesis
    proof (cases "currentRoom sess")
      case None
      with Some Submit_solution show ?thesis
        by (simp add: onChunk_def onMessage_sync_def onMessage_def)
    next
      case rid: (Some rid)
      show ?thesis
      proof (cases "selfId sess")
        case None
        with Some Submit_solution rid show ?thesis
          by (simp add: onChunk_def onMessage_sync_def onMessage_def)
      next
        case pid: (Some pid)
        show ?thesis
        proof (cases "if pid = [] then None else rooms rid")
          case None
          with Some Submit_solution rid pid show ?thesis
            by (simp add: onChunk_def onMessage_sync_def onMessage_def)
        next
          case room: (Some room)
          obtain r1 h' pending where sync:
            "handleSubmit_sync vm h room pid code = (r1, h', pending)"
            by (cases "handleSubmit_sync vm h room pid code")
          show ?thesis
          proof (cases pending)
            case None
            with Some Submit_solution rid pid room sync show ?thesis
              by (simp add: onChunk_def onMessage_sync_def onMessage_def handleSubmit_halves)
          next
            case pend: (Some pend)
            obtain p res where pr: "pend = (p, res)"
              by (cases pend)
            obtain r2 out where cont: "handleSubmit_cont opn now pid p res r1 = (r2, out)"
              by (cases "handleSubmit_cont opn now pid p res r1")
            with Some Submit_solution rid pid room sync pend pr show ?thesis
              by (simp add: onChunk_def onMessage_sync_def onMessage_def handleSubmit_halves
                  settle_def)
          qed
        qed
      qed
    qed
  qed (use onMessage_no_rejection [of m opn problems vm rnd now uuid socket rooms sess h] in
        \<open>auto simp add: Some onChunk_def onMessage_sync_def split: prod.splits\<close>)
qed

text \<open>The sample chunks, evaluated.\<close>

lemmas chunk_defs =
  sampleChunk_def passingFrame_def rematchFrame_def sampleRooms_def onChunk_def
  onMessage_sync_def onMessage_def handleSubmit_sync_def handleSubmit_cont_def submitFailed_def
  settle_def evaluate_boilerplate activeRoom_eq room_defs allOpen_def Let_def

lemma submit_then_rematch:
  "(case sampleChunk [passingFrame, rematchFrame] sampleRooms of
      (rooms', sess', out, h', rejs) \<Rightarrow>
        (case rooms' ''ABCD'' of
           None \<Rightarrow> False
         | Some r \<Rightarrow>
             out = map (\<lambda>s. (s, Room_state (serializeRoom r) None)) [1, 2, 3, 4]
                   @ map (\<lambda>s. (s, Attempt_result True None)) [1, 2, 3, 4]
             \<and> \<not> started r \<and> winner r = None \<and> problem r = None))"
  by (simp add: chunk_defs)

lemma submit_twice:
  "(case sampleChunk [passingFrame, passingFrame] sampleRooms of
      (rooms', sess', out, h', rejs) \<Rightarrow>
        (case rooms' ''ABCD'' of
           None \<Rightarrow> False
         | Some r \<Rightarrow>
             out = map (\<lambda>s. (s, Attempt_result True None)) [1, 2, 3, 4]
                   @ map (\<lambda>s. (s, Game_over (Some B) 1196000)) [1, 2, 3, 4]
                   @ map (\<lambda>s. (s, Room_state (serializeRoom r) None)) [1, 2, 3, 4]
                   @ map (\<lambda>s. (s, Attempt_result True None)) [1, 2, 3, 4]
             \<and> map_option attempts (map_of (players r) ''p2'') = Some 2
             \<and> \<not> started r \<and> winner r = Some B))"
  by (simp add: chunk_defs)

lemma submit_apart:
  "(case sampleChunk [passingFrame] sampleRooms of
      (rooms1, sess1, out1, h1, rejs1) \<Rightarrow>
        (case sampleChunk [passingFrame] rooms1 of
           (rooms2, sess2, out2, h2, rejs2) \<Rightarrow>
             length out1 = 12 \<and> out2 = []
             \<and> (case rooms2 ''ABCD'' of
                    None \<Rightarrow> False
                  | Some r \<Rightarrow>
                      map_option attempts (map_of (players r) ''p2'') = Some 1
                      \<and> \<not> started r \<and> winner r = Some B)))"
  by (simp add: chunk_defs)

text \<open>
  Claim C6: \<^verbatim>\<open>handleSubmit\<close> does nothing unless the round is started, and a submission that
  passes is broadcast as ok and ends the round with the sender's team as winner. The guards
  are read before the \<^verbatim>\<open>await\<close> only, and the handlers of the frames of one chunk all run up
  to their \<^verbatim>\<open>await\<close> before any continuation does. In the sample room the player \<open>p2\<close>
  sends, in one chunk, the starter code and a request for a rematch: the four room states of
  the rematch go out, then an ok result goes to the four players of a room that is not
  started, and no winner is declared. When \<open>p2\<close> sends the starter code twice in one chunk,
  both submissions are counted, and the second ok result goes out after the round has ended:
  sixteen messages. The same two frames in chunks of their own give twelve messages and one
  attempt, the second submission being ignored.
\<close>

theorem pipelined_submissions_interleave:
  "(case sampleChunk [passingFrame, rematchFrame] sampleRooms of
      (rooms', sess', out, h', rejs) \<Rightarrow>
        (case rooms' ''ABCD'' of
           None \<Rightarrow> False
         | Some r \<Rightarrow>
             out = map (\<lambda>s. (s, Room_state (serializeRoom r) None)) [1, 2, 3, 4]
                   @ map (\<lambda>s. (s, Attempt_result True None)) [1, 2, 3, 4]
             \<and> \<not> started r \<and> winner r = None \<and> problem r = None))
   \<and> (case sampleChunk [passingFrame, passingFrame] sampleRooms of
        (rooms', sess', out, h', rejs) \<Rightarrow>
          (case rooms' ''ABCD'' of
             None \<Rightarrow> False
           | Some r \<Rightarrow>
               out = map (\<lambda>s. (s, Attempt_result True None)) [1, 2, 3, 4]
                     @ map (\<lambda>s. (s, Game_over (Some B) 1196000)) [1, 2, 3, 4]
                     @ map (\<lambda>s. (s, Room_state (serializeRoom r) None)) [1, 2, 3, 4]
                     @ map (\<lambda>s. (s, Attempt_result True None)) [1, 2, 3, 4]
               \<and> map_option attempts (map_of (players r) ''p2'') = Some 2
               \<and> \<not> started r \<and> winner r = Some B))
   \<and> (case sampleChunk [passingFrame] sampleRooms of
        (rooms1, sess1, out1, h1, rejs1) \<Rightarrow>
          (case sampleChunk [passingFrame] rooms1 of
             (rooms2, sess2, out2, h2, rejs2) \<Rightarrow>
               length out1 = 12 \<and> out2 = []
               \<and> (case rooms2 ''ABCD'' of
                      None \<Rightarrow> False
                    | Some r \<Rightarrow>
                        map_option attempts (map_of (players r) ''p2'') = Some 1
                        \<and> \<not> started r \<and> winner r = Some B)))"
  by (intro conjI submit_then_rematch submit_twice submit_apart)

section \<open>Team assignment\<close>



lemma length_roster: "length (players r) = length (roster r)"
  by (simp add: roster_def)





lemma roster_update:
  "map_of ps k = Some p \<Longrightarrow> team p' = team p \<Longrightarrow>
   map (\<lambda>(k, p). (k, team p)) (AList.update k p' ps) = map (\<lambda>(k, p). (k, team p)) ps"
  by (induction ps) (auto split: if_splits)

lemma roster_fields [simp]:
  "roster (r\<lparr>started := s\<rparr>) = roster r"
  "roster (r\<lparr>winner := w\<rparr>) = roster r"
  "roster (r\<lparr>problem := pr\<rparr>) = roster r"
  "roster (r\<lparr>endAt := e\<rparr>) = roster r"
  "roster (r\<lparr>timer := t\<rparr>) = roster r"
  by (simp_all add: roster_def)

lemma roster_start: "roster (fst (start opn problems rnd now r)) = roster r"
  by (simp add: start_def Let_def startTimer_def stopTimer_def split: sum.splits)

lemma roster_tryStart: "roster (fst (tryStart opn problems rnd now r)) = roster r"
  by (simp add: tryStart_def roster_start)

lemma roster_setReady: "roster (fst (setReady opn problems rnd now r pid rdy)) = roster r"
proof (cases "map_of (players r) pid")
  case None
  then show ?thesis by (simp add: setReady_def)
next
  case (Some p)
  let ?r = "r\<lparr>players := AList.update pid (p\<lparr>ready := rdy\<rparr>) (players r)\<rparr>"
  have "roster ?r = roster r"
    using Some by (simp add: roster_def roster_update)
  moreover have "fst (setReady opn problems rnd now r pid rdy) = fst (tryStart opn problems rnd now ?r)"
    using Some by (simp add: setReady_def Let_def split: prod.splits)
  ultimately show ?thesis by (simp add: roster_tryStart)
qed

lemma roster_finish: "roster (fst (finish opn now w r)) = roster r"
  by (simp add: finish_def Let_def stopTimer_def)

lemma roster_tick: "roster (fst (tick opn now r)) = roster r"
  using roster_finish [of opn now None "stopTimer r"]
  by (simp add: tick_def stopTimer_def split: option.splits)

lemma roster_rematch: "roster (fst (rematch opn r)) = roster r"
  by (simp add: rematch_def Let_def stopTimer_def roster_def comp_def case_prod_unfold)

lemma roster_handleSubmit: "roster (fst (handleSubmit opn now vm h r fromId code)) = roster r"
proof (cases "map_of (players r) fromId")
  case None
  then show ?thesis by (simp add: handleSubmit_def)
next
  case (Some p)
  show ?thesis
  proof (cases "problem r")
    case None
    with Some show ?thesis by (simp add: handleSubmit_def)
  next
    case (Some prob)
    note prob = this
    show ?thesis
    proof (cases "started r")
      case False
      with \<open>map_of (players r) fromId = Some p\<close> prob show ?thesis by (simp add: handleSubmit_def)
    next
      case True
      let ?p1 = "p\<lparr>attempts := attempts p + 1\<rparr>"
      let ?r1 = "r\<lparr>players := AList.update fromId ?p1 (players r)\<rparr>"
      let ?p2 = "?p1\<lparr>errors := errors ?p1 + 1\<rparr>"
      let ?r2 = "?r1\<lparr>players := AList.update fromId ?p2 (players ?r1)\<rparr>"
      have r1: "roster ?r1 = roster r"
        using \<open>map_of (players r) fromId = Some p\<close> by (simp add: roster_def roster_update)
      have "map_of (players ?r1) fromId = Some ?p1"
        by (simp add: update_conv')
      then have "map (\<lambda>(k, p). (k, team p)) (AList.update fromId ?p2 (players ?r1))
                 = map (\<lambda>(k, p). (k, team p)) (players ?r1)"
        by (rule roster_update) simp
      then have r2: "roster ?r2 = roster ?r1"
        by (simp add: roster_def)
      obtain res h' where ev: "evaluateSolution vm code prob h = (res, h')"
        by (cases "evaluateSolution vm code prob h") auto
      have known: "map_of (players r) fromId = Some p" by fact
      show ?thesis
      proof (cases res)
        case (Inl msg)
        with known prob True ev have "fst (handleSubmit opn now vm h r fromId code) = ?r2"
          by (simp add: handleSubmit_def Let_def)
        with r1 r2 show ?thesis by simp
      next
        case (Inr ok)
        show ?thesis
        proof (cases ok)
          case True
          with Inr known prob \<open>started r\<close> ev
          have "fst (handleSubmit opn now vm h r fromId code)
                = fst (finish opn now (Some (team ?p1)) ?r1)"
            by (simp add: handleSubmit_def Let_def split: prod.splits)
          with r1 roster_finish [of opn now "Some (team ?p1)" ?r1] show ?thesis by simp
        next
          case False
          with Inr known prob \<open>started r\<close> ev
          have "fst (handleSubmit opn now vm h r fromId code) = ?r2"
            by (simp add: handleSubmit_def Let_def)
          with r1 r2 show ?thesis by simp
        qed
      qed
    qed
  qed
qed

text \<open>Whatever the problems are, no sequence of operations gives a room a fifth player.\<close>

lemma size_applyOp:
  assumes "length (players (fst s)) \<le> 4"
  shows "length (players (fst (applyOp opn problems vm x s))) \<le> 4"
proof (cases s)
  case (Pair r h)
  with assms have le: "length (players r) \<le> 4" by simp
  show ?thesis
  proof (cases x)
    case (AddPlayer p)
    show ?thesis
    proof (cases "addPlayer opn r p")
      case (Inl e)
      with Pair AddPlayer le show ?thesis by simp
    next
      case (Inr res)
      obtain r' out where res: "res = (r', out)" by (cases res)
      let ?p = "p\<lparr>team := (if countTeam A r \<le> countTeam B r then A else B)\<rparr>"
      from Inr res have small: "length (players r) < 4"
        by (auto simp: addPlayer_def split: if_splits)
      with Inr res have "r' = r\<lparr>players := AList.update (playerId p) ?p (players r)\<rparr>"
        by (auto simp: addPlayer_def Let_def)
      moreover have "length (AList.update (playerId p) ?p (players r)) \<le> Suc (length (players r))"
        by (rule update_length_le)
      ultimately have "length (players r') \<le> 4"
        using small by simp
      with Pair AddPlayer Inr res show ?thesis by simp
    qed
  next
    case (RemovePlayer pid)
    have "length (AList.delete pid (players r)) \<le> length (players r)"
      by (rule length_delete_le)
    with Pair RemovePlayer le show ?thesis
      by (simp add: removePlayer_def Let_def)
  next
    case (SetReady pid rdy rnd now)
    with Pair le roster_setReady [of opn problems rnd now r pid rdy] show ?thesis
      by (simp add: length_roster)
  next
    case (Tick now)
    with Pair le roster_tick [of opn now r] show ?thesis
      by (simp add: length_roster)
  next
    case (HandleSubmit fromId code now)
    with Pair le roster_handleSubmit [of opn now vm h r fromId code] show ?thesis
      by (simp add: length_roster case_prod_unfold)
  next
    case RematchOp
    with Pair le roster_rematch [of opn r] show ?thesis
      by (simp add: length_roster)
  qed
qed

lemma players_at_most_four:
  "length (players (fst s)) \<le> 4 \<Longrightarrow> length (players (fst (runOps opn problems vm ops s))) \<le> 4"
proof (induction ops arbitrary: s)
  case Nil
  then show ?case by simp
next
  case (Cons x ops)
  from Cons.prems have "length (players (fst (applyOp opn problems vm x s))) \<le> 4"
    by (rule size_applyOp)
  then have "length (players (fst (runOps opn problems vm ops (applyOp opn problems vm x s)))) \<le> 4"
    by (rule Cons.IH)
  then show ?case by simp
qed













end
